theory Spec2Isabelle
  imports Complex_Main "HOL-Library.AList" "HOL-Library.Sublist"
begin

section \<open>The dashboard controller of \<open>src/app/js/main.js\<close>\<close>

text \<open>
  The controller is event driven: every handler runs to completion between two
  \<open>await\<close>s, and the handlers of one user action are sequenced by \<open>await\<close>. The model
  runs one action at a time: a handler is a function from the application state to the
  application state, and the remote service is a parameter, the outcome of the k-th
  \<open>fetch\<close> of the session. A handler that waits for a request is two functions, up to
  the \<open>await\<close> and from it, so that a schedule of two actions in flight can be written
  down (\<open>updateChart_overlapped\<close> is one); the handlers themselves are not interleaved
  otherwise. The timers of the notification banner are outside the model.
\<close>

subsection \<open>Values of the service's JSON\<close>

text \<open>
  A numeric field of a statistics entry: a JSON number, \<open>null\<close>, or \<open>undefined\<close> when
  the key is missing. JSON has no NaN and no infinities, so a number is a rational.
\<close>

datatype jsnum = Undefined | Null | Num rat

text \<open>A field of a chart dataset, an object that the controller copies with a spread.\<close>

datatype jsval =
    JUndefined
  | JNull
  | JBool bool
  | JNum rat
  | JStr string
  | JArr "jsval list"

type_synonym jsobject = "(string \<times> jsval) list"

definition js_get :: "jsobject \<Rightarrow> string \<Rightarrow> jsval" where
  "js_get obj k = (case map_of obj k of None \<Rightarrow> JUndefined | Some v \<Rightarrow> v)"

datatype js_error = JsError string | SyntaxError string | TypeError string | RangeError string

fun error_message :: "js_error \<Rightarrow> string" where
  "error_message (JsError m) = m"
| "error_message (SyntaxError m) = m"
| "error_message (TypeError m) = m"
| "error_message (RangeError m) = m"

record stats_entry =
  st_current :: jsnum
  st_change :: jsnum
  st_min :: jsnum
  st_max :: jsnum
  st_data_coverage :: jsnum
  st_count :: jsnum
  st_total_periods :: jsnum

record dataset_info =
  record_count :: int
  date_range_start :: string
  date_range_end :: string
  fund_availability :: "(string \<times> rat) list option"

record chart_data =
  cd_labels :: "jsval list"
  cd_datasets :: "jsobject list"

text \<open>
  The body of a response, as the fields the controller reads: \<open>success\<close> is the
  truthiness of \<open>result.success\<close>, a field that is \<open>None\<close> is missing.
\<close>

record json_body =
  success :: bool
  message :: "string option"
  data :: "chart_data option"
  statistics :: "(string \<times> stats_entry) list option"
  prices_loaded :: bool
  prices_info :: "dataset_info option"
  returns_loaded :: bool
  returns_info :: "dataset_info option"

subsection \<open>Requests, the service and the trace of effects\<close>

record filter_request =
  data_type :: string
  start_date :: string
  end_date :: string
  funds :: "string list"

datatype payload = NoPayload | FormData string | JsonPayload filter_request

datatype request = Request string string payload

text \<open>
  What a \<open>fetch\<close> gives: it rejects (no connection), or it resolves to a response with
  its \<open>ok\<close> flag and a body, which \<open>response.json()\<close> parses (\<open>Inr\<close>) or rejects
  (\<open>Inl\<close>, with the message of the error).
\<close>

datatype fetch_outcome = NetworkError string | Response bool "string + json_body"

datatype ntype = NSuccess | NError | NWarning | NInfo

datatype event =
    ShowLoading bool
  | Fetch request
  | Notify string ntype
  | ConsoleError string
  | Download string

fun fetches :: "event list \<Rightarrow> request list" where
  "fetches [] = []"
| "fetches (Fetch r # es) = r # fetches es"
| "fetches (_ # es) = fetches es"

fun notifications :: "event list \<Rightarrow> (string \<times> ntype) list" where
  "notifications [] = []"
| "notifications (Notify m t # es) = (m, t) # notifications es"
| "notifications (_ # es) = notifications es"

text \<open>
  The host: the outcome of the k-th \<open>fetch\<close> of the session, the calendar day of
  \<open>new Date().toISOString().split('T')[0]\<close>, and
  \<open>new Date(x).toISOString().split('T')[0]\<close>, which throws a RangeError on a string
  that is not a date (\<open>None\<close>), and the browser's HTML parser: \<open>htmlText x\<close> is the
  text that an element shows once \<open>x\<close> has been assigned as markup through \<open>innerHTML\<close>.
\<close>

record host =
  fetchOutcome :: "nat \<Rightarrow> fetch_outcome"
  today :: string
  isoDay :: "string \<Rightarrow> string option"
  htmlText :: "string \<Rightarrow> string"

subsection \<open>The application state\<close>

datatype text_piece = Lit string | Val jsnum | Fixed2 rat

datatype card_line =
    StatLabel string
  | StatValue string string "text_piece list"
  | Muted "text_piece list"

datatype grid_item =
    ErrorPlaceholder
  | NoDataPlaceholder
  | StatCard "card_line list"

datatype info_card = PricesCard dataset_info | ReturnsCard dataset_info

record app_state =
  dataLoaded_prices :: bool
  dataLoaded_returns :: bool
  selectedFunds :: "string list"
  fundBoxes :: "(string \<times> bool) list"
  dataType :: string
  chartType :: string
  startDate :: string
  endDate :: string
  startDate_min :: string
  startDate_max :: string
  endDate_min :: string
  endDate_max :: string
  chartTitle :: string
  chart_labels :: "jsval list"
  chart_datasets :: "jsobject list"
  yAxisTitle :: string
  statsGrid :: "grid_item list"
  dataInfoVisible :: bool
  dataInfoGrid :: "info_card list"
  loadingVisible :: bool
  banner :: "(string \<times> ntype) option"
  trace :: "event list"

definition all_funds :: "string list" where
  "all_funds = [''GFund'', ''FFund'', ''CFund'', ''SFund'', ''IFund'']"

definition fundColors :: "(string \<times> string) list" where
  "fundColors =
     [(''GFund'', ''#2196f3''), (''FFund'', ''#4caf50''), (''CFund'', ''#ff9800''),
      (''SFund'', ''#f44336''), (''IFund'', ''#9c27b0'')]"

definition fundColor :: "string \<Rightarrow> string" where
  "fundColor fund = (case map_of fundColors fund of None \<Rightarrow> ''undefined'' | Some c \<Rightarrow> c)"

subsection \<open>Utility functions\<close>

definition showLoading :: "bool \<Rightarrow> app_state \<Rightarrow> app_state" where
  "showLoading show s = s\<lparr>loadingVisible := show, trace := trace s @ [ShowLoading show]\<rparr>"

text \<open>
  A new notification replaces the one on the page. \<open>showNotification\<close> splices the message
  into the markup that it assigns to \<open>innerHTML\<close> and does not escape it (line 597):
  \<open>banner\<close> is the notification element of the page, the markup of its message and its
  class. The text that the page shows for it is what the browser's parser makes of the
  markup (\<open>bannerText\<close>); it is the message itself when the message has no markup.
\<close>

definition showNotification :: "string \<Rightarrow> ntype \<Rightarrow> app_state \<Rightarrow> app_state" where
  "showNotification msg typ s = s\<lparr>banner := Some (msg, typ), trace := trace s @ [Notify msg typ]\<rparr>"


definition console_error :: "string \<Rightarrow> app_state \<Rightarrow> app_state" where
  "console_error label s = s\<lparr>trace := trace s @ [ConsoleError label]\<rparr>"

text \<open>\<open>${x}\<close> of a string field that may be missing.\<close>

definition interpolate :: "string option \<Rightarrow> string" where
  "interpolate m = (case m of None \<Rightarrow> ''undefined'' | Some t \<Rightarrow> t)"

text \<open>\<open>result.message || dflt\<close>: a missing or empty message is falsy.\<close>

definition message_or :: "string option \<Rightarrow> string \<Rightarrow> string" where
  "message_or m dflt = (case m of None \<Rightarrow> dflt | Some t \<Rightarrow> if t = [] then dflt else t)"

subsection \<open>The remote service client\<close>

text \<open>
  \<open>apiCall\<close> runs synchronously up to its \<open>fetch\<close> (\<open>apiCall_start\<close>: the overlay is
  shown and the request leaves) and resumes when the request has settled
  (\<open>apiCall_finish\<close>: the \<open>catch\<close> and the \<open>finally\<close> of the source). A caller that
  awaits it runs the two in sequence.
\<close>

definition do_fetch :: "host \<Rightarrow> request \<Rightarrow> app_state \<Rightarrow> fetch_outcome \<times> app_state" where
  "do_fetch h req s =
     (fetchOutcome h (length (fetches (trace s))), s\<lparr>trace := trace s @ [Fetch req]\<rparr>)"

definition apiCall_start ::
  "host \<Rightarrow> string \<Rightarrow> string \<Rightarrow> payload \<Rightarrow> app_state \<Rightarrow> fetch_outcome \<times> app_state" where
  "apiCall_start h ep meth payl s = do_fetch h (Request ep meth payl) (showLoading True s)"

definition api_result :: "fetch_outcome \<Rightarrow> js_error + json_body" where
  "api_result outcome =
     (case outcome of
        NetworkError msg \<Rightarrow> Inl (JsError msg)
      | Response ok parsed \<Rightarrow>
          (case parsed of
             Inl msg \<Rightarrow> Inl (SyntaxError msg)
           | Inr result \<Rightarrow>
               if \<not> ok then Inl (JsError (message_or (message result) ''API request failed''))
               else Inr result))"

definition apiCall_finish :: "fetch_outcome \<Rightarrow> app_state \<Rightarrow> (js_error + json_body) \<times> app_state" where
  "apiCall_finish outcome s =
     (let r = api_result outcome;
          s1 = (case r of
                  Inl e \<Rightarrow> showNotification (''Error: '' @ error_message e) NError s
                | Inr _ \<Rightarrow> s)
      in (r, showLoading False s1))"

definition apiCall ::
  "host \<Rightarrow> string \<Rightarrow> string \<Rightarrow> payload \<Rightarrow> app_state \<Rightarrow> (js_error + json_body) \<times> app_state" where
  "apiCall h ep meth payl s =
     (let (outcome, s1) = apiCall_start h ep meth payl s in apiCall_finish outcome s1)"

subsection \<open>Data info and the date controls\<close>

text \<open>
  \<open>updateDateInputs\<close> assigns the four bounds one after the other; \<open>toISOString\<close> of an
  invalid date throws, and the bounds assigned before the throw stay.
\<close>

definition updateDateInputs ::
  "host \<Rightarrow> string \<times> string \<Rightarrow> app_state \<Rightarrow> (js_error + unit) \<times> app_state" where
  "updateDateInputs h dateRange s =
     (case isoDay h (fst dateRange) of
        None \<Rightarrow> (Inl (RangeError ''Invalid time value''), s)
      | Some a \<Rightarrow>
          (let s1 = s\<lparr>startDate_min := a\<rparr> in
           case isoDay h (snd dateRange) of
             None \<Rightarrow> (Inl (RangeError ''Invalid time value''), s1)
           | Some b \<Rightarrow>
               (let s2 = s1\<lparr>startDate_max := b, endDate_min := a, endDate_max := b\<rparr>;
                    s3 = (if startDate s2 = [] then s2\<lparr>startDate := a\<rparr> else s2);
                    s4 = (if endDate s3 = [] then s3\<lparr>endDate := b\<rparr> else s3)
                in (Inr (), s4))))"

text \<open>
  The second declaration of \<open>updateDataInfoDisplay\<close> (line 703) replaces the first at
  load time. The markup of a card is a function of the dataset's info; the model keeps
  the info.
\<close>

definition updateDataInfoDisplay ::
  "host \<Rightarrow> json_body \<Rightarrow> app_state \<Rightarrow> (js_error + unit) \<times> app_state" where
  "updateDataInfoDisplay h info s =
     (if \<not> prices_loaded info \<and> \<not> returns_loaded info then (Inr (), s\<lparr>dataInfoVisible := False\<rparr>)
      else
        (let s1 = s\<lparr>dataInfoVisible := True, dataInfoGrid := []\<rparr>;
             (r, s2) =
               (case prices_info info of
                  Some pinfo \<Rightarrow>
                    if prices_loaded info then
                      updateDateInputs h (date_range_start pinfo, date_range_end pinfo)
                        (s1\<lparr>dataInfoGrid := dataInfoGrid s1 @ [PricesCard pinfo]\<rparr>)
                    else (Inr (), s1)
                | None \<Rightarrow> (Inr (), s1))
         in case r of
              Inl e \<Rightarrow> (Inl e, s2)
            | Inr _ \<Rightarrow>
                (case returns_info info of
                   Some rinfo \<Rightarrow>
                     if returns_loaded info then
                       (Inr (), s2\<lparr>dataInfoGrid := dataInfoGrid s2 @ [ReturnsCard rinfo]\<rparr>)
                     else (Inr (), s2)
                 | None \<Rightarrow> (Inr (), s2))))"

definition refreshDataInfo :: "host \<Rightarrow> app_state \<Rightarrow> app_state" where
  "refreshDataInfo h s =
     (let (r, s1) = apiCall h ''/data-info'' ''GET'' NoPayload s in
      case r of
        Inl e \<Rightarrow> console_error ''Error refreshing data info:'' s1
      | Inr info \<Rightarrow>
          (let (r2, s2) = updateDataInfoDisplay h info s1 in
           case r2 of
             Inl e \<Rightarrow> console_error ''Error refreshing data info:'' s2
           | Inr _ \<Rightarrow> s2))"

subsection \<open>Statistics\<close>

text \<open>\<open>x.toFixed(2)\<close>: a TypeError when \<open>x\<close> is \<open>null\<close> or \<open>undefined\<close>.\<close>

definition toFixed2 :: "jsnum \<Rightarrow> js_error + text_piece" where
  "toFixed2 x =
     (case x of
        Num r \<Rightarrow> Inr (Fixed2 r)
      | Null \<Rightarrow> Inl (TypeError ''Cannot read properties of null'')
      | Undefined \<Rightarrow> Inl (TypeError ''Cannot read properties of undefined''))"

text \<open>\<open>x || 0\<close>: \<open>null\<close>, \<open>undefined\<close> and \<open>0\<close> are falsy.\<close>

definition or_zero :: "jsnum \<Rightarrow> rat" where
  "or_zero x = (case x of Num r \<Rightarrow> r | Null \<Rightarrow> 0 | Undefined \<Rightarrow> 0)"

text \<open>
  The card of one fund, the body of the \<open>forEach\<close> of the second declaration of
  \<open>updateStatistics\<close> (line 621), which replaces the first at load time.
\<close>

definition rangeLine :: "stats_entry \<Rightarrow> js_error + card_line list" where
  "rangeLine stats =
     (if st_min stats \<noteq> Null then
        (case toFixed2 (st_min stats) of
           Inl e \<Rightarrow> Inl e
         | Inr lo \<Rightarrow>
             (case toFixed2 (st_max stats) of
                Inl e \<Rightarrow> Inl e
              | Inr hi \<Rightarrow> Inr [Muted [Lit ''Range: '', lo, Lit '' - '', hi]]))
      else Inr [])"

definition statCard :: "string \<Rightarrow> string \<Rightarrow> stats_entry \<Rightarrow> js_error + card_line list" where
  "statCard dt fund stats =
     (if st_current stats = Null \<or> st_current stats = Undefined then
        Inr [StatLabel fund,
             StatValue ''stat-value neutral'' (fundColor fund) [Lit ''No Data''],
             Muted [Val (st_data_coverage stats), Lit ''% coverage'']]
      else
        (let change = or_zero (st_change stats);
             changeClass =
               (if change > 0 then ''positive'' else if change < 0 then ''negative'' else ''neutral'');
             changeSymbol = (if change > 0 then ''+'' else [])
         in case toFixed2 (st_current stats) of
              Inl e \<Rightarrow> Inl e
            | Inr cur \<Rightarrow>
                (case rangeLine stats of
                   Inl e \<Rightarrow> Inl e
                 | Inr rline \<Rightarrow>
                     Inr ([StatLabel fund,
                           StatValue ''stat-value'' (fundColor fund)
                             (if dt = ''prices'' then [Lit ''$'', cur] else [cur, Lit ''%'']),
                           StatValue (''stat-value '' @ changeClass) []
                             ([Lit changeSymbol, Fixed2 change] @
                              (if dt = ''prices'' then [] else [Lit ''%''])),
                           Muted [Lit ''Coverage: '', Val (st_data_coverage stats), Lit ''% ('',
                                  Val (st_count stats), Lit ''/'', Val (st_total_periods stats),
                                  Lit '')'']]
                          @ rline))))"

text \<open>
  The \<open>forEach\<close> over the selected funds, in their order; a fund without an entry is
  skipped, and a throw ends the loop.
\<close>

fun statCards :: "string \<Rightarrow> (string \<times> stats_entry) list \<Rightarrow> string list \<Rightarrow> js_error + grid_item list" where
  "statCards dt st [] = Inr []"
| "statCards dt st (fund # rest) =
     (case map_of st fund of
        None \<Rightarrow> statCards dt st rest
      | Some stats \<Rightarrow>
          (case statCard dt fund stats of
             Inl e \<Rightarrow> Inl e
           | Inr statCard_lines \<Rightarrow>
               (case statCards dt st rest of
                  Inl e \<Rightarrow> Inl e
                | Inr cards \<Rightarrow> Inr (StatCard statCard_lines # cards))))"

text \<open>The \<open>catch\<close> of \<open>updateStatistics\<close>: the panel becomes one error placeholder.\<close>

definition statistics_failed :: "app_state \<Rightarrow> app_state" where
  "statistics_failed s = (console_error ''Error updating statistics:'' s)\<lparr>statsGrid := [ErrorPlaceholder]\<rparr>"

definition current_filter :: "app_state \<Rightarrow> filter_request" where
  "current_filter s =
     \<lparr>data_type = dataType s, start_date = startDate s, end_date = endDate s,
      funds = selectedFunds s\<rparr>"

definition updateStatistics_finish :: "string \<Rightarrow> fetch_outcome \<Rightarrow> app_state \<Rightarrow> app_state" where
  "updateStatistics_finish dt outcome s =
     (let (r, s1) = apiCall_finish outcome s in
      case r of
        Inl e \<Rightarrow> statistics_failed s1
      | Inr statsData \<Rightarrow>
          if \<not> success statsData then s1\<lparr>statsGrid := [ErrorPlaceholder]\<rparr>
          else
            (case statistics statsData of
               None \<Rightarrow> statistics_failed s1
             | Some st \<Rightarrow>
                 if st = [] then s1\<lparr>statsGrid := [NoDataPlaceholder]\<rparr>
                 else
                   (case statCards dt st (selectedFunds s1) of
                      Inl e \<Rightarrow> statistics_failed s1
                    | Inr cards \<Rightarrow> s1\<lparr>statsGrid := cards\<rparr>)))"

definition updateStatistics :: "host \<Rightarrow> app_state \<Rightarrow> app_state" where
  "updateStatistics h s =
     (let (outcome, s1) = apiCall_start h ''/statistics'' ''POST'' (JsonPayload (current_filter s)) s
      in updateStatistics_finish (dataType s) outcome s1)"

subsection \<open>The chart\<close>

text \<open>
  The object spread \<open>{...dataset, fill: ..., ...}\<close>: the fields of \<open>dataset\<close>, then the
  seven attributes, each replacing a field of that name or added after the others.
\<close>

definition styleDataset :: "string \<Rightarrow> jsobject \<Rightarrow> jsobject" where
  "styleDataset ct dataset =
     AList.update ''pointBorderColor'' (js_get dataset ''borderColor'')
      (AList.update ''pointBackgroundColor'' (js_get dataset ''borderColor'')
        (AList.update ''borderWidth'' (JNum 2)
          (AList.update ''pointHoverRadius'' (JNum 6)
            (AList.update ''pointRadius'' (JNum 2)
              (AList.update ''tension'' (JNum (1 / 10))
                (AList.update ''fill'' (JBool (ct = ''area'')) dataset))))))"

text \<open>The \<open>catch\<close> of \<open>updateChart\<close>.\<close>

definition chart_failed :: "app_state \<Rightarrow> app_state" where
  "chart_failed s =
     showNotification ''Error updating chart. Please try again.'' NError
       (console_error ''Error updating chart:'' s)"

text \<open>The guard of \<open>updateChart\<close> and of \<open>exportData\<close>.\<close>

definition not_loaded :: "app_state \<Rightarrow> bool" where
  "not_loaded s \<longleftrightarrow>
     (dataType s = ''prices'' \<and> \<not> dataLoaded_prices s) \<or>
     (dataType s = ''returns'' \<and> \<not> dataLoaded_returns s)"

text \<open>
  \<open>updateChart\<close> up to its first \<open>await\<close>: it has returned (\<open>Inl\<close>, the guard), or it
  waits for the chart data (\<open>Inr\<close>, with the values of the controls it has read).
  The pictograph at the head of the chart's title is left out.
\<close>

definition updateChart_start ::
  "host \<Rightarrow> app_state \<Rightarrow> app_state + ((string \<times> string \<times> fetch_outcome) \<times> app_state)" where
  "updateChart_start h s =
     (if not_loaded s then
        Inl (showNotification (''No '' @ dataType s @ '' data loaded. Please upload a CSV file first.'')
               NWarning s)
      else
        (let (outcome, s1) = apiCall_start h ''/chart-data'' ''POST'' (JsonPayload (current_filter s)) s
         in Inr ((dataType s, chartType s, outcome), s1)))"

definition updateChart_finish ::
  "host \<Rightarrow> string \<times> string \<times> fetch_outcome \<Rightarrow> app_state \<Rightarrow> app_state" where
  "updateChart_finish h pending s =
     (let (dt, ct, outcome) = pending;
          (r, s1) = apiCall_finish outcome s
      in case r of
           Inl e \<Rightarrow> chart_failed s1
         | Inr chartData \<Rightarrow>
             if \<not> success chartData then
               showNotification (''Error getting chart data: '' @ interpolate (message chartData))
                 NError s1
             else
               (let s2 = s1\<lparr>chartTitle :=
                            (if dt = ''prices'' then ''Share Price'' else ''Return Rate'') @ '' Analysis''\<rparr>
                in case data chartData of
                     None \<Rightarrow> chart_failed s2
                   | Some d \<Rightarrow>
                       updateStatistics h
                         (s2\<lparr>chart_labels := cd_labels d,
                             chart_datasets := map (styleDataset ct) (cd_datasets d),
                             yAxisTitle :=
                               (if dt = ''prices'' then ''Price ($)'' else ''Return Rate (%)'')\<rparr>)))"

definition updateChart :: "host \<Rightarrow> app_state \<Rightarrow> app_state" where
  "updateChart h s =
     (case updateChart_start h s of
        Inl s1 \<Rightarrow> s1
      | Inr (pending, s1) \<Rightarrow> updateChart_finish h pending s1)"

subsection \<open>Uploads\<close>

definition uploadPricesFile :: "host \<Rightarrow> string \<Rightarrow> app_state \<Rightarrow> app_state" where
  "uploadPricesFile h file s =
     (let (r, s1) = apiCall h ''/upload/prices'' ''POST'' (FormData file) s in
      case r of
        Inl e \<Rightarrow> console_error ''Error uploading prices file:'' s1
      | Inr result \<Rightarrow>
          if success result then
            updateChart h (refreshDataInfo h
              (showNotification ''Prices data loaded successfully!'' NSuccess
                 (s1\<lparr>dataLoaded_prices := True\<rparr>)))
          else showNotification (''Error loading prices: '' @ interpolate (message result)) NError s1)"

definition uploadReturnsFile :: "host \<Rightarrow> string \<Rightarrow> app_state \<Rightarrow> app_state" where
  "uploadReturnsFile h file s =
     (let (r, s1) = apiCall h ''/upload/returns'' ''POST'' (FormData file) s in
      case r of
        Inl e \<Rightarrow> console_error ''Error uploading returns file:'' s1
      | Inr result \<Rightarrow>
          if success result then
            updateChart h (refreshDataInfo h
              (showNotification ''Returns data loaded successfully!'' NSuccess
                 (s1\<lparr>dataLoaded_returns := True\<rparr>)))
          else showNotification (''Error loading returns: '' @ interpolate (message result)) NError s1)"

definition loadSampleData :: "host \<Rightarrow> app_state \<Rightarrow> app_state" where
  "loadSampleData h s =
     (let (r, s1) = apiCall h ''/load-sample-data'' ''POST'' NoPayload s in
      case r of
        Inl e \<Rightarrow> console_error ''Error loading sample data:'' s1
      | Inr result \<Rightarrow>
          if success result then
            updateChart h (refreshDataInfo h
              (showNotification ''Sample data loaded successfully!'' NSuccess
                 (s1\<lparr>dataLoaded_prices := True, dataLoaded_returns := True\<rparr>)))
          else showNotification (''Error loading sample data: '' @ interpolate (message result)) NError s1)"

text \<open>The drop and the file picker call the handler on the first file, if there is one.\<close>

definition filesChosen :: "(string \<Rightarrow> app_state \<Rightarrow> app_state) \<Rightarrow> string list \<Rightarrow> app_state \<Rightarrow> app_state" where
  "filesChosen handler files s = (case files of [] \<Rightarrow> s | file # _ \<Rightarrow> handler file s)"

subsection \<open>Fund selection and reset\<close>

definition setupFundSelection :: "app_state \<Rightarrow> app_state" where
  "setupFundSelection s = s\<lparr>fundBoxes := map (\<lambda>fund. (fund, True)) all_funds\<rparr>"

text \<open>\<open>Set.add\<close> and \<open>Set.delete\<close> on a set kept in insertion order.\<close>

definition set_add :: "string \<Rightarrow> string list \<Rightarrow> string list" where
  "set_add x xs = (if x \<in> set xs then xs else xs @ [x])"

definition set_delete :: "string \<Rightarrow> string list \<Rightarrow> string list" where
  "set_delete x xs = removeAll x xs"

definition fundToggled :: "host \<Rightarrow> string \<Rightarrow> bool \<Rightarrow> app_state \<Rightarrow> app_state" where
  "fundToggled h fund checked s =
     (let s1 = s\<lparr>fundBoxes := AList.update fund checked (fundBoxes s)\<rparr>;
          s2 = (if checked then s1\<lparr>selectedFunds := set_add fund (selectedFunds s1)\<rparr>
                else s1\<lparr>selectedFunds := set_delete fund (selectedFunds s1)\<rparr>)
      in updateChart h s2)"

text \<open>
  In the callback of \<open>resetFilters\<close> the call of \<open>updateChart\<close> is not awaited: the
  notification is shown when \<open>updateChart\<close> has returned or waits for the chart data.
\<close>

definition resetFilters :: "host \<Rightarrow> app_state \<Rightarrow> app_state" where
  "resetFilters h s =
     (let s1 = setupFundSelection (s\<lparr>selectedFunds := all_funds\<rparr>);
          s2 = s1\<lparr>dataType := ''prices'', chartType := ''line''\<rparr>;
          s3 = refreshDataInfo h s2
      in case updateChart_start h s3 of
           Inl s4 \<Rightarrow> showNotification ''Filters reset successfully!'' NSuccess s4
         | Inr (pending, s4) \<Rightarrow>
             updateChart_finish h pending
               (showNotification ''Filters reset successfully!'' NSuccess s4))"

subsection \<open>Export\<close>

definition download :: "string \<Rightarrow> app_state \<Rightarrow> app_state" where
  "download name s = s\<lparr>trace := trace s @ [Download name]\<rparr>"

definition exportChart :: "host \<Rightarrow> app_state \<Rightarrow> app_state" where
  "exportChart h s =
     showNotification ''Chart exported successfully!'' NSuccess
       (download (dataType s @ ''_chart_'' @ today h @ ''.png'') s)"

text \<open>The \<open>catch\<close> of \<open>exportData\<close>.\<close>

definition export_failed :: "app_state \<Rightarrow> app_state" where
  "export_failed s =
     showNotification ''Error exporting data'' NError (console_error ''Error exporting data:'' s)"

text \<open>The \<open>finally\<close> of \<open>exportData\<close> hides the overlay on every path, the guard's too.\<close>

definition exportData :: "host \<Rightarrow> app_state \<Rightarrow> app_state" where
  "exportData h s =
     (if not_loaded s then
        showLoading False
          (showNotification (''No '' @ dataType s @ '' data loaded to export'') NWarning s)
      else
        (let (outcome, s1) =
               do_fetch h (Request ''/export'' ''POST'' (JsonPayload (current_filter s)))
                 (showLoading True s)
         in showLoading False
              (case outcome of
                 NetworkError msg \<Rightarrow> export_failed s1
               | Response ok body \<Rightarrow>
                   if \<not> ok then export_failed s1
                   else
                     showNotification ''Data exported successfully!'' NSuccess
                       (download (dataType s @ ''_export_'' @ today h @ ''.csv'') s1))))"

subsection \<open>The user's actions\<close>

text \<open>
  A change of a control sets its value and calls the listener, \<open>updateChart\<close>; the
  buttons call their functions.
\<close>

datatype action =
    PricesFiles "string list"
  | ReturnsFiles "string list"
  | LoadSampleData
  | RefreshDataInfo
  | SetDataType string
  | SetChartType string
  | SetStartDate string
  | SetEndDate string
  | ToggleFund string bool
  | ResetFilters
  | ExportChart
  | ExportData

fun perform :: "host \<Rightarrow> action \<Rightarrow> app_state \<Rightarrow> app_state" where
  "perform h (PricesFiles files) s = filesChosen (uploadPricesFile h) files s"
| "perform h (ReturnsFiles files) s = filesChosen (uploadReturnsFile h) files s"
| "perform h LoadSampleData s = loadSampleData h s"
| "perform h RefreshDataInfo s = refreshDataInfo h s"
| "perform h (SetDataType v) s = updateChart h (s\<lparr>dataType := v\<rparr>)"
| "perform h (SetChartType v) s = updateChart h (s\<lparr>chartType := v\<rparr>)"
| "perform h (SetStartDate v) s = updateChart h (s\<lparr>startDate := v\<rparr>)"
| "perform h (SetEndDate v) s = updateChart h (s\<lparr>endDate := v\<rparr>)"
| "perform h (ToggleFund fund checked) s = fundToggled h fund checked s"
| "perform h ResetFilters s = resetFilters h s"
| "perform h ExportChart s = exportChart h s"
| "perform h ExportData s = exportData h s"

fun perform_all :: "host \<Rightarrow> action list \<Rightarrow> app_state \<Rightarrow> app_state" where
  "perform_all h [] s = s"
| "perform_all h (a # as) s = perform_all h as (perform h a s)"

subsection \<open>Two runs of the chart update that overlap\<close>

text \<open>
  Nothing cancels a chart request in flight, and the listeners of the controls run while
  \<open>updateChart\<close> waits. Here the user changes the start date while the chart request of a
  first run is pending: the listener starts a second run, and the response of the second
  run arrives before that of the first. Each run resumes with its own response.
\<close>

definition updateChart_overlapped :: "host \<Rightarrow> string \<Rightarrow> app_state \<Rightarrow> app_state" where
  "updateChart_overlapped h v s =
     (case updateChart_start h s of
        Inl s1 \<Rightarrow> updateChart h (s1\<lparr>startDate := v\<rparr>)
      | Inr (first, s1) \<Rightarrow>
          (case updateChart_start h (s1\<lparr>startDate := v\<rparr>) of
             Inl s2 \<Rightarrow> updateChart_finish h first s2
           | Inr (second, s2) \<Rightarrow> updateChart_finish h first (updateChart_finish h second s2)))"

subsection \<open>Notions for the statements\<close>

text \<open>What \<open>apiCall\<close> adds to the trace once the request has settled.\<close>

definition finish_events :: "fetch_outcome \<Rightarrow> event list" where
  "finish_events outcome =
     (case api_result outcome of
        Inl e \<Rightarrow> [Notify (''Error: '' @ error_message e) NError]
      | Inr _ \<Rightarrow> []) @ [ShowLoading False]"

text \<open>The second state has the flags, the selection and the controls of the first.\<close>

definition selection_kept :: "app_state \<Rightarrow> app_state \<Rightarrow> bool" where
  "selection_kept s s' \<longleftrightarrow>
     dataLoaded_prices s' = dataLoaded_prices s \<and> dataLoaded_returns s' = dataLoaded_returns s \<and>
     selectedFunds s' = selectedFunds s \<and> fundBoxes s' = fundBoxes s \<and>
     dataType s' = dataType s \<and> chartType s' = chartType s"

definition dates_kept :: "app_state \<Rightarrow> app_state \<Rightarrow> bool" where
  "dates_kept s s' \<longleftrightarrow>
     startDate s' = startDate s \<and> endDate s' = endDate s \<and>
     startDate_min s' = startDate_min s \<and> startDate_max s' = startDate_max s \<and>
     endDate_min s' = endDate_min s \<and> endDate_max s' = endDate_max s"

definition chart_kept :: "app_state \<Rightarrow> app_state \<Rightarrow> bool" where
  "chart_kept s s' \<longleftrightarrow>
     chartTitle s' = chartTitle s \<and> chart_labels s' = chart_labels s \<and>
     chart_datasets s' = chart_datasets s \<and> yAxisTitle s' = yAxisTitle s"

text \<open>
  The chart data with which \<open>updateChart\<close> redraws the chart, for the outcome of its
  request: none when \<open>apiCall\<close> throws or the response has \<open>success\<close> false.
\<close>

definition chart_payload :: "fetch_outcome \<Rightarrow> chart_data option" where
  "chart_payload outcome =
     (case api_result outcome of
        Inl e \<Rightarrow> None
      | Inr chartData \<Rightarrow> if success chartData then data chartData else None)"

text \<open>The outcome of a request that the service has accepted: \<open>success\<close> is true.\<close>

definition accepted :: "fetch_outcome \<Rightarrow> bool" where
  "accepted outcome \<longleftrightarrow> (\<exists>result. outcome = Response True (Inr result) \<and> success result)"

text \<open>
  The statistics panel for the outcome of a statistics request, in the words of the spec
  (4.6): a single error placeholder on failure or \<open>success\<close> false, a single no-data
  placeholder for an empty mapping, otherwise one card for each selected fund that has an
  entry, in the order of the selection (and the error placeholder when a card throws).
\<close>

definition statistics_panel :: "string \<Rightarrow> string list \<Rightarrow> fetch_outcome \<Rightarrow> grid_item list" where
  "statistics_panel dt selected outcome =
     (case api_result outcome of
        Inl e \<Rightarrow> [ErrorPlaceholder]
      | Inr statsData \<Rightarrow>
          if \<not> success statsData then [ErrorPlaceholder]
          else
            (case statistics statsData of
               None \<Rightarrow> [ErrorPlaceholder]
             | Some st \<Rightarrow>
                 if st = [] then [NoDataPlaceholder]
                 else
                   (case statCards dt st selected of
                      Inl e \<Rightarrow> [ErrorPlaceholder]
                    | Inr cards \<Rightarrow> cards)))"

text \<open>A string without the characters that start markup in HTML.\<close>

definition markup_free :: "string \<Rightarrow> bool" where
  "markup_free x \<longleftrightarrow> CHR ''<'' \<notin> set x \<and> CHR ''&'' \<notin> set x"

text \<open>The names of the attributes that \<open>styleDataset\<close> sets.\<close>

definition style_keys :: "string list" where
  "style_keys =
     [''fill'', ''tension'', ''pointRadius'', ''pointHoverRadius'', ''borderWidth'',
      ''pointBackgroundColor'', ''pointBorderColor'']"

subsection \<open>A page and a service to run the controller on\<close>

text \<open>
  The page after \<open>init\<close> with nothing loaded, and a service that answers the k-th
  request with the k-th outcome of a list.
\<close>

definition fresh_page :: app_state where
  "fresh_page =
     \<lparr>dataLoaded_prices = False, dataLoaded_returns = False,
      selectedFunds = all_funds, fundBoxes = map (\<lambda>fund. (fund, True)) all_funds,
      dataType = ''prices'', chartType = ''line'', startDate = [], endDate = [],
      startDate_min = [], startDate_max = [], endDate_min = [], endDate_max = [],
      chartTitle = [], chart_labels = [], chart_datasets = [], yAxisTitle = ''Value'',
      statsGrid = [], dataInfoVisible = False, dataInfoGrid = [], loadingVisible = False,
      banner = None, trace = []\<rparr>"

text \<open>
  The text of a markup string, for markup with tags only: what stands between a \<open><\<close> and
  the next \<open>>\<close> is a tag and is not shown.
\<close>

fun visible_text :: "bool \<Rightarrow> string \<Rightarrow> string" where
  "visible_text in_tag [] = []"
| "visible_text in_tag (c # cs) =
     (if in_tag then visible_text (c \<noteq> CHR ''>'') cs
      else if c = CHR ''<'' then visible_text True cs
      else c # visible_text False cs)"

definition scripted :: "fetch_outcome list \<Rightarrow> host" where
  "scripted outcomes =
     \<lparr>fetchOutcome = (\<lambda>k. if k < length outcomes then outcomes ! k
                           else NetworkError ''Failed to fetch''),
      today = ''2024-03-05'',
      isoDay = (\<lambda>x. if x = [] then None else Some (take 10 x)),
      htmlText = visible_text False\<rparr>"

definition empty_body :: json_body where
  "empty_body =
     \<lparr>success = False, message = None, data = None, statistics = None,
      prices_loaded = False, prices_info = None, returns_loaded = False, returns_info = None\<rparr>"

text \<open>A chart response with three labels and two series of three values.\<close>

definition example_chart :: chart_data where
  "example_chart =
     \<lparr>cd_labels = [JStr ''2024-01-02'', JStr ''2024-01-03'', JStr ''2024-01-04''],
      cd_datasets =
        [[(''label'', JStr ''GFund''), (''data'', JArr [JNum 17, JNum 18, JNull]),
          (''borderColor'', JStr ''#2196f3'')],
         [(''label'', JStr ''CFund''), (''data'', JArr [JNum 70, JNum 71, JNum 72]),
          (''borderColor'', JStr ''#ff9800'')]]\<rparr>"

text \<open>
  A data info response for a service that holds daily prices of 2020 and monthly returns
  of 2021.
\<close>

definition example_info :: json_body where
  "example_info =
     empty_body
       \<lparr>prices_loaded := True,
        prices_info := Some \<lparr>record_count = 253, date_range_start = ''2020-01-02'',
                            date_range_end = ''2020-12-31'', fund_availability = None\<rparr>,
        returns_loaded := True,
        returns_info := Some \<lparr>record_count = 12, date_range_start = ''2021-01-31'',
                             date_range_end = ''2021-12-31'', fund_availability = None\<rparr>\<rparr>"

text \<open>
  An entry of a statistics response for a fund with data, whose \<open>min\<close> key is missing.
\<close>

definition stats_without_min :: stats_entry where
  "stats_without_min =
     \<lparr>st_current = Num (35 / 2), st_change = Num (1 / 5), st_min = Undefined, st_max = Num 18,
      st_data_coverage = Num 100, st_count = Num 3, st_total_periods = Num 3\<rparr>"

text \<open>
  A chart response with one label, and a statistics response with the entry of one fund
  that has no data in range.
\<close>

definition chart_from :: "string \<Rightarrow> json_body" where
  "chart_from day =
     empty_body\<lparr>success := True, data := Some \<lparr>cd_labels = [JStr day], cd_datasets = []\<rparr>\<rparr>"

definition example_statistics :: json_body where
  "example_statistics =
     empty_body
       \<lparr>success := True,
        statistics := Some [(''SFund'',
          \<lparr>st_current = Null, st_change = Null, st_min = Null, st_max = Null,
           st_data_coverage = Num 0, st_count = Num 0, st_total_periods = Num 3\<rparr>)]\<rparr>"

text \<open>A data info response for a service that holds the monthly returns of 2021 only.\<close>

definition returns_only_info :: json_body where
  "returns_only_info = example_info\<lparr>prices_loaded := False, prices_info := None\<rparr>"

text \<open>A page with only returns loaded, showing the returns of 2021.\<close>

definition returns_page :: app_state where
  "returns_page =
     fresh_page
       \<lparr>dataLoaded_returns := True, dataType := ''returns'', chartType := ''area'',
        selectedFunds := [''CFund''],
        chartTitle := ''Return Rate Analysis'', chart_labels := [JStr ''2021-01-31''],
        chart_datasets := [[(''label'', JStr ''CFund''), (''data'', JArr [JNum 2])]],
        yAxisTitle := ''Return Rate (%)'', statsGrid := [NoDataPlaceholder],
        startDate_min := ''2019-01-01''\<rparr>"

section \<open>Properties\<close>

subsection \<open>The trace\<close>

lemma fetches_append [simp]: "fetches (xs @ ys) = fetches xs @ fetches ys"
  by (induction xs rule: fetches.induct) simp_all

lemma fetches_finish_events [simp]: "fetches (finish_events outcome) = []"
  by (simp add: finish_events_def split: sum.splits)

lemma apiCall_start_eq:
  "apiCall_start h ep meth payl s =
     (fetchOutcome h (length (fetches (trace s))),
      s\<lparr>loadingVisible := True, trace := trace s @ [ShowLoading True, Fetch (Request ep meth payl)]\<rparr>)"
  by (simp add: apiCall_start_def do_fetch_def showLoading_def)

lemma apiCall_finish_eq:
  "apiCall_finish outcome s =
     (api_result outcome,
      s\<lparr>loadingVisible := False,
        banner := (case api_result outcome of
                     Inl e \<Rightarrow> Some (''Error: '' @ error_message e, NError)
                   | Inr _ \<Rightarrow> banner s),
        trace := trace s @ finish_events outcome\<rparr>)"
  by (simp add: apiCall_finish_def showLoading_def showNotification_def finish_events_def Let_def
      split: sum.splits)

lemma apiCall_eq:
  "apiCall h ep meth payl s =
     (api_result (fetchOutcome h (length (fetches (trace s)))),
      s\<lparr>loadingVisible := False,
        banner := (case api_result (fetchOutcome h (length (fetches (trace s)))) of
                     Inl e \<Rightarrow> Some (''Error: '' @ error_message e, NError)
                   | Inr _ \<Rightarrow> banner s),
        trace := trace s @ [ShowLoading True, Fetch (Request ep meth payl)]
                   @ finish_events (fetchOutcome h (length (fetches (trace s))))\<rparr>)"
  by (simp add: apiCall_def apiCall_start_eq apiCall_finish_eq split: sum.splits)

lemma api_result_Inr:
  "api_result outcome = Inr result \<longleftrightarrow> outcome = Response True (Inr result)"
  by (auto simp: api_result_def split: fetch_outcome.splits sum.splits)

subsection \<open>The remote service client\<close>

text \<open>
  C8. Every call through \<open>apiCall\<close> shows the loading overlay before the request leaves
  and hides it after the request has settled, whatever its outcome: the trace of the call
  is the overlay shown, the request, the error notification if the call fails, the overlay
  hidden, and the overlay is hidden in the final state. The call returns a result only
  for a response with a success status and a JSON body; a rejected \<open>fetch\<close>, a body that
  is not JSON and a non-success status each give an error to the caller (\<open>Inl\<close>, the
  re-throw), after a notification with the error's message.
\<close>

theorem apiCall_loading_scoped:
  assumes "apiCall h ep meth payl s = (r, s')"
  shows "trace s' =
           trace s @ [ShowLoading True, Fetch (Request ep meth payl)]
             @ (case r of Inl e \<Rightarrow> [Notify (''Error: '' @ error_message e) NError] | Inr _ \<Rightarrow> [])
             @ [ShowLoading False]
         \<and> \<not> loadingVisible s'
         \<and> ((\<exists>result. r = Inr result) \<longleftrightarrow>
              (\<exists>result. fetchOutcome h (length (fetches (trace s))) = Response True (Inr result)))
         \<and> (\<forall>e. r = Inl e \<longrightarrow> banner s' = Some (''Error: '' @ error_message e, NError))"
proof -
  let ?outcome = "fetchOutcome h (length (fetches (trace s)))"
  from assms have "r = fst (apiCall h ep meth payl s)" and "s' = snd (apiCall h ep meth payl s)"
    by simp_all
  then have r: "r = api_result ?outcome"
    and s': "s' = s\<lparr>loadingVisible := False,
        banner := (case api_result ?outcome of
                     Inl e \<Rightarrow> Some (''Error: '' @ error_message e, NError)
                   | Inr _ \<Rightarrow> banner s),
        trace := trace s @ [ShowLoading True, Fetch (Request ep meth payl)]
                   @ finish_events ?outcome\<rparr>"
    by (simp_all add: apiCall_eq)
  have "trace s' =
           trace s @ [ShowLoading True, Fetch (Request ep meth payl)]
             @ (case r of Inl e \<Rightarrow> [Notify (''Error: '' @ error_message e) NError] | Inr _ \<Rightarrow> [])
             @ [ShowLoading False]"
    by (simp add: s' r finish_events_def)
  moreover have "\<not> loadingVisible s'"
    by (simp add: s')
  moreover have "(\<exists>result. r = Inr result) \<longleftrightarrow> (\<exists>result. ?outcome = Response True (Inr result))"
    by (simp add: r api_result_Inr)
  moreover have "\<forall>e. r = Inl e \<longrightarrow> banner s' = Some (''Error: '' @ error_message e, NError)"
    by (simp add: s' r)
  ultimately show ?thesis by blast
qed

theorem apiCall_loading_scoped_witness:
  "fst (apiCall (scripted [Response False (Inr (empty_body\<lparr>message := Some ''bad header''\<rparr>))])
         ''/upload/prices'' ''POST'' (FormData ''prices.csv'') (fresh_page\<lparr>loadingVisible := True\<rparr>))
     = Inl (JsError ''bad header'')
   \<and> \<not> loadingVisible (snd (apiCall (scripted [Response False (Inr (empty_body\<lparr>message := Some ''bad header''\<rparr>))])
         ''/upload/prices'' ''POST'' (FormData ''prices.csv'') (fresh_page\<lparr>loadingVisible := True\<rparr>)))
   \<and> banner (snd (apiCall (scripted [Response False (Inr (empty_body\<lparr>message := Some ''bad header''\<rparr>))])
         ''/upload/prices'' ''POST'' (FormData ''prices.csv'') (fresh_page\<lparr>loadingVisible := True\<rparr>)))
     = Some (''Error: bad header'', NError)"
proof -
  let ?h = "scripted [Response False (Inr (empty_body\<lparr>message := Some ''bad header''\<rparr>))]"
  let ?s = "fresh_page\<lparr>loadingVisible := True\<rparr>"
  let ?c = "apiCall ?h ''/upload/prices'' ''POST'' (FormData ''prices.csv'') ?s"
  have run: "?c = (fst ?c, snd ?c)" by simp
  have r: "fst ?c = Inl (JsError ''bad header'')"
    by (simp add: apiCall_eq api_result_def scripted_def fresh_page_def empty_body_def message_or_def)
  show ?thesis
    using apiCall_loading_scoped [OF run] r by simp
qed

subsection \<open>What the handlers leave unchanged\<close>

lemma kept_refl [simp]: "selection_kept s s" "dates_kept s s" "chart_kept s s"
  by (simp_all add: selection_kept_def dates_kept_def chart_kept_def)

lemma selection_kept_trans: "selection_kept s t \<Longrightarrow> selection_kept t u \<Longrightarrow> selection_kept s u"
  by (simp add: selection_kept_def)

lemma dates_kept_trans: "dates_kept s t \<Longrightarrow> dates_kept t u \<Longrightarrow> dates_kept s u"
  by (simp add: dates_kept_def)

lemma chart_kept_trans: "chart_kept s t \<Longrightarrow> chart_kept t u \<Longrightarrow> chart_kept s u"
  by (simp add: chart_kept_def)

lemma showNotification_kept [simp]:
  "selection_kept s (showNotification m t s)" "dates_kept s (showNotification m t s)"
  "chart_kept s (showNotification m t s)" "statsGrid (showNotification m t s) = statsGrid s"
  by (simp_all add: showNotification_def selection_kept_def dates_kept_def chart_kept_def)

lemma console_error_kept [simp]:
  "selection_kept s (console_error l s)" "dates_kept s (console_error l s)"
  "chart_kept s (console_error l s)" "statsGrid (console_error l s) = statsGrid s"
  by (simp_all add: console_error_def selection_kept_def dates_kept_def chart_kept_def)

lemma apiCall_kept:
  "selection_kept s (snd (apiCall h ep meth payl s))" "dates_kept s (snd (apiCall h ep meth payl s))"
  "chart_kept s (snd (apiCall h ep meth payl s))"
  "statsGrid (snd (apiCall h ep meth payl s)) = statsGrid s"
  by (simp_all add: apiCall_eq selection_kept_def dates_kept_def chart_kept_def)

lemma apiCall_fetches:
  "fetches (trace (snd (apiCall h ep meth payl s))) = fetches (trace s) @ [Request ep meth payl]"
  by (simp add: apiCall_eq)

lemma updateStatistics_finish_kept:
  "selection_kept s (updateStatistics_finish dt outcome s)"
  "dates_kept s (updateStatistics_finish dt outcome s)"
  "chart_kept s (updateStatistics_finish dt outcome s)"
  "fetches (trace (updateStatistics_finish dt outcome s)) = fetches (trace s)"
  by (simp_all add: updateStatistics_finish_def apiCall_finish_eq statistics_failed_def
      console_error_def selection_kept_def dates_kept_def chart_kept_def
      split: sum.splits option.splits)

lemma updateStatistics_kept:
  "selection_kept s (updateStatistics h s)" "dates_kept s (updateStatistics h s)"
  "chart_kept s (updateStatistics h s)"
  using updateStatistics_finish_kept
  by (simp_all add: updateStatistics_def apiCall_start_eq selection_kept_def dates_kept_def
      chart_kept_def)

lemma updateStatistics_fetches:
  "fetches (trace (updateStatistics h s)) =
     fetches (trace s) @ [Request ''/statistics'' ''POST'' (JsonPayload (current_filter s))]"
  by (simp add: updateStatistics_def apiCall_start_eq updateStatistics_finish_kept)

subsection \<open>The chart renderer\<close>

lemma updateChart_guard:
  "not_loaded s \<Longrightarrow>
   updateChart h s =
     showNotification (''No '' @ dataType s @ '' data loaded. Please upload a CSV file first.'')
       NWarning s"
  by (simp add: updateChart_def updateChart_start_def)

lemma updateChart_start_Inr:
  "\<not> not_loaded s \<Longrightarrow>
   updateChart_start h s =
     Inr ((dataType s, chartType s, fetchOutcome h (length (fetches (trace s)))),
          s\<lparr>loadingVisible := True,
            trace := trace s @ [ShowLoading True,
              Fetch (Request ''/chart-data'' ''POST'' (JsonPayload (current_filter s)))]\<rparr>)"
  by (simp add: updateChart_start_def apiCall_start_eq)

lemma chart_failed_kept [simp]:
  "selection_kept s (chart_failed s)" "dates_kept s (chart_failed s)" "chart_kept s (chart_failed s)"
  "statsGrid (chart_failed s) = statsGrid s" "fetches (trace (chart_failed s)) = fetches (trace s)"
  "banner (chart_failed s) = Some (''Error updating chart. Please try again.'', NError)"
  by (simp_all add: chart_failed_def showNotification_def console_error_def selection_kept_def
      dates_kept_def chart_kept_def)

lemma current_filter_kept:
  "selection_kept s s' \<Longrightarrow> dates_kept s s' \<Longrightarrow> current_filter s' = current_filter s"
  by (simp add: current_filter_def selection_kept_def dates_kept_def)

text \<open>The request has failed or was rejected: nothing of the chart or the panel changes.\<close>

lemma updateChart_finish_None:
  assumes "chart_payload outcome = None"
  shows "chart_labels (updateChart_finish h (dt, ct, outcome) s) = chart_labels s"
    and "chart_datasets (updateChart_finish h (dt, ct, outcome) s) = chart_datasets s"
    and "yAxisTitle (updateChart_finish h (dt, ct, outcome) s) = yAxisTitle s"
    and "statsGrid (updateChart_finish h (dt, ct, outcome) s) = statsGrid s"
    and "fetches (trace (updateChart_finish h (dt, ct, outcome) s)) = fetches (trace s)"
    and "\<exists>msg. banner (updateChart_finish h (dt, ct, outcome) s) = Some (msg, NError)"
    and "selection_kept s (updateChart_finish h (dt, ct, outcome) s)"
    and "dates_kept s (updateChart_finish h (dt, ct, outcome) s)"
  using assms
  by (simp_all add: updateChart_finish_def apiCall_finish_eq chart_payload_def chart_failed_def Let_def
      showNotification_def console_error_def selection_kept_def dates_kept_def
      split: sum.splits option.splits if_splits)

text \<open>The request has succeeded: the chart is replaced, then the statistics are requested.\<close>

lemma updateChart_finish_Some:
  assumes "chart_payload outcome = Some d"
  shows "updateChart_finish h (dt, ct, outcome) s =
           updateStatistics h
             (s\<lparr>loadingVisible := False, trace := trace s @ [ShowLoading False],
                chartTitle := (if dt = ''prices'' then ''Share Price'' else ''Return Rate'') @ '' Analysis'',
                chart_labels := cd_labels d,
                chart_datasets := map (styleDataset ct) (cd_datasets d),
                yAxisTitle := (if dt = ''prices'' then ''Price ($)'' else ''Return Rate (%)'')\<rparr>)"
proof -
  from assms obtain chartData where "api_result outcome = Inr chartData" "success chartData"
    "data chartData = Some d"
    by (auto simp: chart_payload_def split: sum.splits if_splits)
  then show ?thesis
    by (simp add: updateChart_finish_def apiCall_finish_eq finish_events_def Let_def)
qed

lemma updateChart_finish_kept:
  "selection_kept s (updateChart_finish h (dt, ct, outcome) s)"
  "dates_kept s (updateChart_finish h (dt, ct, outcome) s)"
proof -
  have "selection_kept s (updateChart_finish h (dt, ct, outcome) s)
        \<and> dates_kept s (updateChart_finish h (dt, ct, outcome) s)"
  proof (cases "chart_payload outcome")
    case None
    then show ?thesis by (simp add: updateChart_finish_None)
  next
    case (Some d)
    let ?t = "s\<lparr>loadingVisible := False, trace := trace s @ [ShowLoading False],
                chartTitle := (if dt = ''prices'' then ''Share Price'' else ''Return Rate'') @ '' Analysis'',
                chart_labels := cd_labels d,
                chart_datasets := map (styleDataset ct) (cd_datasets d),
                yAxisTitle := (if dt = ''prices'' then ''Price ($)'' else ''Return Rate (%)'')\<rparr>"
    have "selection_kept s ?t" "dates_kept s ?t"
      by (simp_all add: selection_kept_def dates_kept_def)
    with updateStatistics_kept [of ?t h] show ?thesis
      unfolding updateChart_finish_Some [OF Some]
      by (blast intro: selection_kept_trans dates_kept_trans)
  qed
  then show "selection_kept s (updateChart_finish h (dt, ct, outcome) s)"
    and "dates_kept s (updateChart_finish h (dt, ct, outcome) s)" by simp_all
qed

lemma updateChart_kept:
  "selection_kept s (updateChart h s)" "dates_kept s (updateChart h s)"
proof -
  have "selection_kept s (updateChart h s) \<and> dates_kept s (updateChart h s)"
  proof (cases "not_loaded s")
    case True
    then show ?thesis by (simp add: updateChart_guard)
  next
    case False
    let ?t = "s\<lparr>loadingVisible := True,
            trace := trace s @ [ShowLoading True,
              Fetch (Request ''/chart-data'' ''POST'' (JsonPayload (current_filter s)))]\<rparr>"
    have "selection_kept s ?t" "dates_kept s ?t"
      by (simp_all add: selection_kept_def dates_kept_def)
    with updateChart_finish_kept [of ?t h] show ?thesis
      unfolding updateChart_def updateChart_start_Inr [OF False]
      by (auto intro: selection_kept_trans dates_kept_trans)
  qed
  then show "selection_kept s (updateChart h s)" and "dates_kept s (updateChart h s)"
    by simp_all
qed

lemma chart_payload_Some:
  "chart_payload outcome = Some d \<longleftrightarrow>
     (\<exists>chartData. outcome = Response True (Inr chartData) \<and> success chartData \<and> data chartData = Some d)"
  by (auto simp: chart_payload_def api_result_def split: fetch_outcome.splits sum.splits)

lemma updateChart_fetches:
  "fetches (trace (updateChart h s)) =
     fetches (trace s) @
       (if not_loaded s then []
        else Request ''/chart-data'' ''POST'' (JsonPayload (current_filter s)) #
             (case chart_payload (fetchOutcome h (length (fetches (trace s)))) of
                None \<Rightarrow> []
              | Some d \<Rightarrow> [Request ''/statistics'' ''POST'' (JsonPayload (current_filter s))]))"
proof (cases "not_loaded s")
  case True
  then show ?thesis by (simp add: updateChart_guard showNotification_def)
next
  case False
  let ?outcome = "fetchOutcome h (length (fetches (trace s)))"
  show ?thesis
  proof (cases "chart_payload ?outcome")
    case None
    with False show ?thesis
      by (simp add: updateChart_def updateChart_start_Inr updateChart_finish_None)
  next
    case (Some d)
    with False show ?thesis
      by (simp add: updateChart_def updateChart_start_Inr updateChart_finish_Some
          updateStatistics_fetches current_filter_def)
  qed
qed

text \<open>
  C3. When the data type selected has no dataset loaded (prices selected and prices not
  loaded, or returns selected and returns not loaded), \<open>updateChart\<close> sends no request:
  all it does is show a warning notification. The chart (title, labels, datasets, axis
  title) and the statistics panel stay as they were.
\<close>

theorem updateChart_not_loaded:
  assumes "(dataType s = ''prices'' \<and> \<not> dataLoaded_prices s) \<or>
           (dataType s = ''returns'' \<and> \<not> dataLoaded_returns s)"
  shows "fetches (trace (updateChart h s)) = fetches (trace s)
       \<and> trace (updateChart h s) =
           trace s @ [Notify (''No '' @ dataType s @ '' data loaded. Please upload a CSV file first.'')
                        NWarning]
       \<and> banner (updateChart h s) =
           Some (''No '' @ dataType s @ '' data loaded. Please upload a CSV file first.'', NWarning)
       \<and> chartTitle (updateChart h s) = chartTitle s
       \<and> chart_labels (updateChart h s) = chart_labels s
       \<and> chart_datasets (updateChart h s) = chart_datasets s
       \<and> yAxisTitle (updateChart h s) = yAxisTitle s
       \<and> statsGrid (updateChart h s) = statsGrid s"
proof -
  from assms have "not_loaded s" by (simp add: not_loaded_def)
  then show ?thesis
    by (simp add: updateChart_guard showNotification_def)
qed

theorem updateChart_not_loaded_witness:
  "dataType fresh_page = ''prices'' \<and> \<not> dataLoaded_prices fresh_page
   \<and> fetches (trace (updateChart (scripted []) fresh_page)) = []
   \<and> banner (updateChart (scripted []) fresh_page) =
       Some (''No prices data loaded. Please upload a CSV file first.'', NWarning)
   \<and> chart_datasets (updateChart (scripted []) fresh_page) = []"
proof -
  have guard: "(dataType fresh_page = ''prices'' \<and> \<not> dataLoaded_prices fresh_page) \<or>
           (dataType fresh_page = ''returns'' \<and> \<not> dataLoaded_returns fresh_page)"
    by (simp add: fresh_page_def)
  show ?thesis
    using updateChart_not_loaded [OF guard, of "scripted []"] by (simp add: fresh_page_def)
qed

lemma styleDataset_get:
  "js_get (styleDataset ct dataset) k =
     (if k = ''pointBorderColor'' \<or> k = ''pointBackgroundColor'' then js_get dataset ''borderColor''
      else if k = ''borderWidth'' then JNum 2
      else if k = ''pointHoverRadius'' then JNum 6
      else if k = ''pointRadius'' then JNum 2
      else if k = ''tension'' then JNum (1 / 10)
      else if k = ''fill'' then JBool (ct = ''area'')
      else js_get dataset k)"
  by (simp add: styleDataset_def js_get_def update_conv')

text \<open>
  C5. After a successful chart response with the labels \<open>cd_labels d\<close> and the datasets
  \<open>cd_datasets d\<close>, the chart has these labels and one series for each dataset, in the
  same order. Each series has \<open>fill\<close> true exactly when the chart type is \<open>area\<close>,
  point radius 2, hover radius 6 and both point colours equal to the \<open>borderColor\<close> of
  its dataset. Every field of the dataset other than the seven attributes that are set
  is in the series with its value, so an array of as many values as there are labels
  stays one. The series are a function of the response and of the chart type alone.
\<close>

theorem updateChart_renders_series:
  assumes "\<not> not_loaded s"
    and "fetchOutcome h (length (fetches (trace s))) = Response True (Inr chartData)"
    and "success chartData"
    and "data chartData = Some d"
  shows "chart_labels (updateChart h s) = cd_labels d
       \<and> chart_datasets (updateChart h s) = map (styleDataset (chartType s)) (cd_datasets d)
       \<and> length (chart_datasets (updateChart h s)) = length (cd_datasets d)
       \<and> (\<forall>i<length (cd_datasets d).
            js_get (chart_datasets (updateChart h s) ! i) ''fill'' = JBool (chartType s = ''area'')
          \<and> js_get (chart_datasets (updateChart h s) ! i) ''pointRadius'' = JNum 2
          \<and> js_get (chart_datasets (updateChart h s) ! i) ''pointHoverRadius'' = JNum 6
          \<and> js_get (chart_datasets (updateChart h s) ! i) ''pointBackgroundColor''
              = js_get (cd_datasets d ! i) ''borderColor''
          \<and> js_get (chart_datasets (updateChart h s) ! i) ''pointBorderColor''
              = js_get (cd_datasets d ! i) ''borderColor''
          \<and> (\<forall>k. k \<notin> set style_keys \<longrightarrow>
                js_get (chart_datasets (updateChart h s) ! i) k = js_get (cd_datasets d ! i) k)
          \<and> (\<forall>k vs. k \<notin> set style_keys \<and> js_get (cd_datasets d ! i) k = JArr vs
                      \<and> length vs = length (cd_labels d) \<longrightarrow>
                (\<exists>ws. js_get (chart_datasets (updateChart h s) ! i) k = JArr ws
                      \<and> length ws = length (chart_labels (updateChart h s)))))"
proof -
  let ?t = "s\<lparr>loadingVisible := True,
            trace := trace s @ [ShowLoading True,
              Fetch (Request ''/chart-data'' ''POST'' (JsonPayload (current_filter s)))]\<rparr>"
  let ?u = "?t\<lparr>loadingVisible := False, trace := trace ?t @ [ShowLoading False],
                chartTitle := (if dataType s = ''prices'' then ''Share Price'' else ''Return Rate'') @ '' Analysis'',
                chart_labels := cd_labels d,
                chart_datasets := map (styleDataset (chartType s)) (cd_datasets d),
                yAxisTitle := (if dataType s = ''prices'' then ''Price ($)'' else ''Return Rate (%)'')\<rparr>"
  from assms(2-4) have payload: "chart_payload (fetchOutcome h (length (fetches (trace s)))) = Some d"
    by (simp add: chart_payload_Some)
  have run: "updateChart h s = updateStatistics h ?u"
    by (simp add: updateChart_def updateChart_start_Inr [OF assms(1)]
        updateChart_finish_Some [OF payload])
  have "chart_kept ?u (updateStatistics h ?u)"
    by (rule updateStatistics_kept)
  then have labels: "chart_labels (updateChart h s) = cd_labels d"
    and series: "chart_datasets (updateChart h s) = map (styleDataset (chartType s)) (cd_datasets d)"
    by (simp_all add: run chart_kept_def)
  show ?thesis
    by (simp add: labels series styleDataset_get style_keys_def)
qed

theorem updateChart_renders_series_witness:
  "length (chart_datasets (updateChart
      (scripted [Response True (Inr (empty_body\<lparr>success := True, data := Some example_chart\<rparr>))])
      (fresh_page\<lparr>dataLoaded_prices := True, chartType := ''area''\<rparr>))) = 2
   \<and> length (chart_labels (updateChart
      (scripted [Response True (Inr (empty_body\<lparr>success := True, data := Some example_chart\<rparr>))])
      (fresh_page\<lparr>dataLoaded_prices := True, chartType := ''area''\<rparr>))) = 3
   \<and> js_get (chart_datasets (updateChart
      (scripted [Response True (Inr (empty_body\<lparr>success := True, data := Some example_chart\<rparr>))])
      (fresh_page\<lparr>dataLoaded_prices := True, chartType := ''area''\<rparr>)) ! 1) ''fill'' = JBool True
   \<and> js_get (chart_datasets (updateChart
      (scripted [Response True (Inr (empty_body\<lparr>success := True, data := Some example_chart\<rparr>))])
      (fresh_page\<lparr>dataLoaded_prices := True, chartType := ''area''\<rparr>)) ! 1) ''pointBorderColor''
       = JStr ''#ff9800''
   \<and> js_get (chart_datasets (updateChart
      (scripted [Response True (Inr (empty_body\<lparr>success := True, data := Some example_chart\<rparr>))])
      (fresh_page\<lparr>dataLoaded_prices := True, chartType := ''area''\<rparr>)) ! 1) ''data''
       = JArr [JNum 70, JNum 71, JNum 72]"
proof -
  let ?body = "empty_body\<lparr>success := True, data := Some example_chart\<rparr>"
  let ?h = "scripted [Response True (Inr ?body)]"
  let ?s = "fresh_page\<lparr>dataLoaded_prices := True, chartType := ''area''\<rparr>"
  have a: "\<not> not_loaded ?s" by (simp add: not_loaded_def fresh_page_def)
  have b: "fetchOutcome ?h (length (fetches (trace ?s))) = Response True (Inr ?body)"
    by (simp add: scripted_def fresh_page_def)
  have c: "success ?body" and d: "data ?body = Some example_chart"
    by (simp_all add: empty_body_def)
  have n: "length (cd_datasets example_chart) = 2" "length (cd_labels example_chart) = 3"
    and colour: "js_get (cd_datasets example_chart ! Suc 0) ''borderColor'' = JStr ''#ff9800''"
    and held: "js_get (cd_datasets example_chart ! Suc 0) ''data'' = JArr [JNum 70, JNum 71, JNum 72]"
    by (simp_all add: example_chart_def js_get_def)
  have i: "1 < length (cd_datasets example_chart)" by (simp add: n)
  have k: "''data'' \<notin> set style_keys" by (simp add: style_keys_def)
  note all = updateChart_renders_series [OF a b c d]
  note series = all [THEN conjunct2, THEN conjunct2, THEN conjunct2, rule_format, OF i]
  have "length (chart_datasets (updateChart ?h ?s)) = 2"
    using all n by simp
  moreover have "length (chart_labels (updateChart ?h ?s)) = 3"
    using all n by simp
  moreover have "js_get (chart_datasets (updateChart ?h ?s) ! 1) ''fill'' = JBool True"
    using series by (simp add: fresh_page_def)
  moreover have "js_get (chart_datasets (updateChart ?h ?s) ! 1) ''pointBorderColor'' = JStr ''#ff9800''"
    using series by (simp add: colour)
  moreover have "js_get (chart_datasets (updateChart ?h ?s) ! 1) ''data'' = JArr [JNum 70, JNum 71, JNum 72]"
    using series k by (simp add: held)
  ultimately show ?thesis by simp
qed

lemma updateChart_redraws:
  assumes "\<not> not_loaded s"
    and "chart_payload (fetchOutcome h (length (fetches (trace s)))) = Some d"
  shows "chart_labels (updateChart h s) = cd_labels d"
    and "chart_datasets (updateChart h s) = map (styleDataset (chartType s)) (cd_datasets d)"
proof -
  let ?t = "s\<lparr>loadingVisible := True,
            trace := trace s @ [ShowLoading True,
              Fetch (Request ''/chart-data'' ''POST'' (JsonPayload (current_filter s)))]\<rparr>"
  let ?u = "?t\<lparr>loadingVisible := False, trace := trace ?t @ [ShowLoading False],
                chartTitle := (if dataType s = ''prices'' then ''Share Price'' else ''Return Rate'') @ '' Analysis'',
                chart_labels := cd_labels d,
                chart_datasets := map (styleDataset (chartType s)) (cd_datasets d),
                yAxisTitle := (if dataType s = ''prices'' then ''Price ($)'' else ''Return Rate (%)'')\<rparr>"
  have run: "updateChart h s = updateStatistics h ?u"
    by (simp add: updateChart_def updateChart_start_Inr [OF assms(1)]
        updateChart_finish_Some [OF assms(2)])
  have "chart_kept ?u (updateStatistics h ?u)"
    by (rule updateStatistics_kept)
  then show "chart_labels (updateChart h s) = cd_labels d"
    and "chart_datasets (updateChart h s) = map (styleDataset (chartType s)) (cd_datasets d)"
    by (simp_all add: run chart_kept_def)
qed

subsection \<open>Data info\<close>

lemma updateDateInputs_kept:
  "selection_kept s (snd (updateDateInputs h r s))" "chart_kept s (snd (updateDateInputs h r s))"
  "statsGrid (snd (updateDateInputs h r s)) = statsGrid s"
  "trace (snd (updateDateInputs h r s)) = trace s"
  by (simp_all add: updateDateInputs_def selection_kept_def chart_kept_def Let_def
      split: option.splits)

lemmas updateDateInputs_fields = updateDateInputs_kept [unfolded selection_kept_def chart_kept_def]

lemma updateDataInfoDisplay_kept:
  "selection_kept s (snd (updateDataInfoDisplay h info s))"
  "chart_kept s (snd (updateDataInfoDisplay h info s))"
  "statsGrid (snd (updateDataInfoDisplay h info s)) = statsGrid s"
  "trace (snd (updateDataInfoDisplay h info s)) = trace s"
  by (simp_all add: updateDataInfoDisplay_def selection_kept_def chart_kept_def Let_def
      case_prod_beta updateDateInputs_fields split: option.splits sum.splits)

text \<open>The state in which \<open>refreshDataInfo\<close> displays the info it has received.\<close>

lemma refreshDataInfo_eq:
  "refreshDataInfo h s =
     (case api_result (fetchOutcome h (length (fetches (trace s)))) of
        Inl e \<Rightarrow> console_error ''Error refreshing data info:'' (snd (apiCall h ''/data-info'' ''GET'' NoPayload s))
      | Inr info \<Rightarrow>
          (case fst (updateDataInfoDisplay h info (snd (apiCall h ''/data-info'' ''GET'' NoPayload s))) of
             Inl e \<Rightarrow> console_error ''Error refreshing data info:''
                        (snd (updateDataInfoDisplay h info (snd (apiCall h ''/data-info'' ''GET'' NoPayload s))))
           | Inr _ \<Rightarrow> snd (updateDataInfoDisplay h info (snd (apiCall h ''/data-info'' ''GET'' NoPayload s)))))"
  by (simp add: refreshDataInfo_def apiCall_eq case_prod_beta split: sum.splits)

lemma refreshDataInfo_kept:
  "selection_kept s (refreshDataInfo h s)" "chart_kept s (refreshDataInfo h s)"
  "statsGrid (refreshDataInfo h s) = statsGrid s"
  "fetches (trace (refreshDataInfo h s)) = fetches (trace s) @ [Request ''/data-info'' ''GET'' NoPayload]"
proof -
  let ?a = "snd (apiCall h ''/data-info'' ''GET'' NoPayload s)"
  have a: "selection_kept s ?a" "chart_kept s ?a" "statsGrid ?a = statsGrid s"
    "fetches (trace ?a) = fetches (trace s) @ [Request ''/data-info'' ''GET'' NoPayload]"
    by (simp_all add: apiCall_kept apiCall_fetches)
  have d: "selection_kept s (snd (updateDataInfoDisplay h info ?a))"
    "chart_kept s (snd (updateDataInfoDisplay h info ?a))"
    "statsGrid (snd (updateDataInfoDisplay h info ?a)) = statsGrid s"
    "fetches (trace (snd (updateDataInfoDisplay h info ?a)))
       = fetches (trace s) @ [Request ''/data-info'' ''GET'' NoPayload]" for info
    using a updateDataInfoDisplay_kept [where s = ?a and h = h and info = info]
    by (auto intro: selection_kept_trans chart_kept_trans)
  have e: "selection_kept s (console_error l t)" "chart_kept s (console_error l t)"
    "statsGrid (console_error l t) = statsGrid s"
    "fetches (trace (console_error l t)) = fetches (trace s) @ [Request ''/data-info'' ''GET'' NoPayload]"
    if "selection_kept s t" "chart_kept s t" "statsGrid t = statsGrid s"
      "fetches (trace t) = fetches (trace s) @ [Request ''/data-info'' ''GET'' NoPayload]" for l t
    using that by (simp_all add: console_error_def selection_kept_def chart_kept_def)
  show "selection_kept s (refreshDataInfo h s)" "chart_kept s (refreshDataInfo h s)"
    "statsGrid (refreshDataInfo h s) = statsGrid s"
    "fetches (trace (refreshDataInfo h s)) = fetches (trace s) @ [Request ''/data-info'' ''GET'' NoPayload]"
    unfolding refreshDataInfo_eq
    by (simp_all add: a d e split: sum.splits)
qed

subsection \<open>Uploads and the availability flags\<close>

text \<open>
  A handler that loads data: its request, and after a response with \<open>success\<close> true the
  flags it sets, a notification, the refresh and the redraw.
\<close>

lemma uploadPricesFile_eq:
  "uploadPricesFile h file s =
     (case api_result (fetchOutcome h (length (fetches (trace s)))) of
        Inl e \<Rightarrow> console_error ''Error uploading prices file:''
                   (snd (apiCall h ''/upload/prices'' ''POST'' (FormData file) s))
      | Inr result \<Rightarrow>
          if success result then
            updateChart h (refreshDataInfo h
              (showNotification ''Prices data loaded successfully!'' NSuccess
                 ((snd (apiCall h ''/upload/prices'' ''POST'' (FormData file) s))\<lparr>dataLoaded_prices := True\<rparr>)))
          else showNotification (''Error loading prices: '' @ interpolate (message result)) NError
                 (snd (apiCall h ''/upload/prices'' ''POST'' (FormData file) s)))"
  by (simp add: uploadPricesFile_def apiCall_eq split: sum.splits)

lemma uploadReturnsFile_eq:
  "uploadReturnsFile h file s =
     (case api_result (fetchOutcome h (length (fetches (trace s)))) of
        Inl e \<Rightarrow> console_error ''Error uploading returns file:''
                   (snd (apiCall h ''/upload/returns'' ''POST'' (FormData file) s))
      | Inr result \<Rightarrow>
          if success result then
            updateChart h (refreshDataInfo h
              (showNotification ''Returns data loaded successfully!'' NSuccess
                 ((snd (apiCall h ''/upload/returns'' ''POST'' (FormData file) s))\<lparr>dataLoaded_returns := True\<rparr>)))
          else showNotification (''Error loading returns: '' @ interpolate (message result)) NError
                 (snd (apiCall h ''/upload/returns'' ''POST'' (FormData file) s)))"
  by (simp add: uploadReturnsFile_def apiCall_eq split: sum.splits)

lemma loadSampleData_eq:
  "loadSampleData h s =
     (case api_result (fetchOutcome h (length (fetches (trace s)))) of
        Inl e \<Rightarrow> console_error ''Error loading sample data:''
                   (snd (apiCall h ''/load-sample-data'' ''POST'' NoPayload s))
      | Inr result \<Rightarrow>
          if success result then
            updateChart h (refreshDataInfo h
              (showNotification ''Sample data loaded successfully!'' NSuccess
                 ((snd (apiCall h ''/load-sample-data'' ''POST'' NoPayload s))
                    \<lparr>dataLoaded_prices := True, dataLoaded_returns := True\<rparr>)))
          else showNotification (''Error loading sample data: '' @ interpolate (message result)) NError
                 (snd (apiCall h ''/load-sample-data'' ''POST'' NoPayload s)))"
  by (simp add: loadSampleData_def apiCall_eq split: sum.splits)

text \<open>The refresh and the redraw after a load leave the flags as the load has set them.\<close>

lemma redraw_flags:
  "dataLoaded_prices (updateChart h (refreshDataInfo h s)) = dataLoaded_prices s"
  "dataLoaded_returns (updateChart h (refreshDataInfo h s)) = dataLoaded_returns s"
  using updateChart_kept(1) [of "refreshDataInfo h s" h] refreshDataInfo_kept(1) [of s h]
  by (simp_all add: selection_kept_def)

lemmas apiCall_fields = apiCall_kept [unfolded selection_kept_def chart_kept_def dates_kept_def]

lemma accepted_api_result:
  "accepted outcome \<longleftrightarrow> (\<exists>result. api_result outcome = Inr result \<and> success result)"
  by (auto simp: accepted_def api_result_Inr)

lemma uploadPricesFile_flags:
  "dataLoaded_prices (uploadPricesFile h file s) =
     (dataLoaded_prices s \<or> accepted (fetchOutcome h (length (fetches (trace s)))))"
  "dataLoaded_returns (uploadPricesFile h file s) = dataLoaded_returns s"
  by (auto simp: uploadPricesFile_eq redraw_flags showNotification_def console_error_def
      apiCall_fields accepted_api_result split: sum.splits)

lemma uploadReturnsFile_flags:
  "dataLoaded_returns (uploadReturnsFile h file s) =
     (dataLoaded_returns s \<or> accepted (fetchOutcome h (length (fetches (trace s)))))"
  "dataLoaded_prices (uploadReturnsFile h file s) = dataLoaded_prices s"
  by (auto simp: uploadReturnsFile_eq redraw_flags showNotification_def console_error_def
      apiCall_fields accepted_api_result split: sum.splits)

lemma loadSampleData_flags:
  "dataLoaded_prices (loadSampleData h s) =
     (dataLoaded_prices s \<or> accepted (fetchOutcome h (length (fetches (trace s)))))"
  "dataLoaded_returns (loadSampleData h s) =
     (dataLoaded_returns s \<or> accepted (fetchOutcome h (length (fetches (trace s)))))"
  by (auto simp: loadSampleData_eq redraw_flags showNotification_def console_error_def
      apiCall_fields accepted_api_result split: sum.splits)




lemma updateChart_start_kept:
  "updateChart_start h s = Inl t \<Longrightarrow> selection_kept s t \<and> dates_kept s t"
  "updateChart_start h s = Inr (pending, t) \<Longrightarrow>
     selection_kept s t \<and> dates_kept s t
     \<and> pending = (dataType s, chartType s, fetchOutcome h (length (fetches (trace s))))"
  by (auto simp: updateChart_start_def apiCall_start_eq selection_kept_def dates_kept_def
      showNotification_def split: if_splits)

text \<open>
  After its refresh, \<open>resetFilters\<close> changes neither the flags, the selection nor the
  date controls.
\<close>

lemma resetFilters_refreshed:
  "selection_kept
     (refreshDataInfo h ((setupFundSelection (s\<lparr>selectedFunds := all_funds\<rparr>))
         \<lparr>dataType := ''prices'', chartType := ''line''\<rparr>))
     (resetFilters h s)"
  "dates_kept
     (refreshDataInfo h ((setupFundSelection (s\<lparr>selectedFunds := all_funds\<rparr>))
         \<lparr>dataType := ''prices'', chartType := ''line''\<rparr>))
     (resetFilters h s)"
proof -
  let ?s3 = "refreshDataInfo h ((setupFundSelection (s\<lparr>selectedFunds := all_funds\<rparr>))
         \<lparr>dataType := ''prices'', chartType := ''line''\<rparr>)"
  have "selection_kept ?s3 (resetFilters h s) \<and> dates_kept ?s3 (resetFilters h s)"
  proof (cases "updateChart_start h ?s3")
    case (Inl t)
    with updateChart_start_kept(1) [OF Inl] show ?thesis
      by (simp add: resetFilters_def Let_def selection_kept_def dates_kept_def showNotification_def)
  next
    case (Inr p)
    obtain pending t where p: "p = (pending, t)" by (cases p)
    obtain dt ct outcome where pending: "pending = (dt, ct, outcome)" by (cases pending)
    let ?n = "showNotification ''Filters reset successfully!'' NSuccess t"
    from Inr p have "selection_kept ?s3 t" "dates_kept ?s3 t"
      by (simp_all add: updateChart_start_kept(2))
    then have "selection_kept ?s3 ?n" "dates_kept ?s3 ?n"
      by (simp_all add: selection_kept_def dates_kept_def showNotification_def)
    then have "selection_kept ?s3 (updateChart_finish h pending ?n)"
      "dates_kept ?s3 (updateChart_finish h pending ?n)"
      unfolding pending
      using updateChart_finish_kept [of ?n h dt ct outcome]
      by (blast intro: selection_kept_trans dates_kept_trans)+
    with Inr p show ?thesis
      by (simp add: resetFilters_def Let_def)
  qed
  then show "selection_kept ?s3 (resetFilters h s)" and "dates_kept ?s3 (resetFilters h s)"
    by simp_all
qed

lemma resetFilters_kept:
  "dataLoaded_prices (resetFilters h s) = dataLoaded_prices s"
  "dataLoaded_returns (resetFilters h s) = dataLoaded_returns s"
  "selectedFunds (resetFilters h s) = all_funds"
  "dataType (resetFilters h s) = ''prices''"
  "chartType (resetFilters h s) = ''line''"
proof -
  let ?s2 = "(setupFundSelection (s\<lparr>selectedFunds := all_funds\<rparr>))\<lparr>dataType := ''prices'', chartType := ''line''\<rparr>"
  have "selection_kept ?s2 (refreshDataInfo h ?s2)" by (rule refreshDataInfo_kept)
  then have "selection_kept ?s2 (resetFilters h s)"
    using resetFilters_refreshed(1) by (rule selection_kept_trans)
  then show "dataLoaded_prices (resetFilters h s) = dataLoaded_prices s"
    "dataLoaded_returns (resetFilters h s) = dataLoaded_returns s"
    "selectedFunds (resetFilters h s) = all_funds"
    "dataType (resetFilters h s) = ''prices''"
    "chartType (resetFilters h s) = ''line''"
    by (simp_all add: selection_kept_def setupFundSelection_def)
qed

lemma exportData_flags:
  "dataLoaded_prices (exportData h s) = dataLoaded_prices s"
  "dataLoaded_returns (exportData h s) = dataLoaded_returns s"
  by (simp_all add: exportData_def do_fetch_def showLoading_def showNotification_def
      export_failed_def console_error_def download_def split: fetch_outcome.splits)

lemmas updateChart_fields = updateChart_kept [unfolded selection_kept_def dates_kept_def]
lemmas refreshDataInfo_fields = refreshDataInfo_kept(1) [unfolded selection_kept_def]

text \<open>The flags after one action.\<close>

lemma perform_flags:
  "dataLoaded_prices (perform h a s) =
     (dataLoaded_prices s \<or>
      ((\<exists>file files. a = PricesFiles (file # files)) \<or> a = LoadSampleData)
       \<and> accepted (fetchOutcome h (length (fetches (trace s)))))"
  "dataLoaded_returns (perform h a s) =
     (dataLoaded_returns s \<or>
      ((\<exists>file files. a = ReturnsFiles (file # files)) \<or> a = LoadSampleData)
       \<and> accepted (fetchOutcome h (length (fetches (trace s)))))"
proof -
  have "dataLoaded_prices (perform h a s) =
     (dataLoaded_prices s \<or>
      ((\<exists>file files. a = PricesFiles (file # files)) \<or> a = LoadSampleData)
       \<and> accepted (fetchOutcome h (length (fetches (trace s)))))
   \<and> dataLoaded_returns (perform h a s) =
     (dataLoaded_returns s \<or>
      ((\<exists>file files. a = ReturnsFiles (file # files)) \<or> a = LoadSampleData)
       \<and> accepted (fetchOutcome h (length (fetches (trace s)))))"
  proof (cases a)
    case (PricesFiles files)
    then show ?thesis
      by (cases files) (simp_all add: filesChosen_def uploadPricesFile_flags)
  next
    case (ReturnsFiles files)
    then show ?thesis
      by (cases files) (simp_all add: filesChosen_def uploadReturnsFile_flags)
  next
    case LoadSampleData
    then show ?thesis by (simp add: loadSampleData_flags)
  next
    case RefreshDataInfo
    then show ?thesis by (simp add: refreshDataInfo_fields)
  next
    case (SetDataType v)
    then show ?thesis by (simp add: updateChart_fields)
  next
    case (SetChartType v)
    then show ?thesis by (simp add: updateChart_fields)
  next
    case (SetStartDate v)
    then show ?thesis by (simp add: updateChart_fields)
  next
    case (SetEndDate v)
    then show ?thesis by (simp add: updateChart_fields)
  next
    case (ToggleFund fund checked)
    then show ?thesis by (simp add: fundToggled_def updateChart_fields Let_def)
  next
    case ResetFilters
    then show ?thesis by (simp add: resetFilters_kept)
  next
    case ExportChart
    then show ?thesis by (simp add: exportChart_def showNotification_def download_def)
  next
    case ExportData
    then show ?thesis by (simp add: exportData_flags)
  qed
  then show "dataLoaded_prices (perform h a s) =
     (dataLoaded_prices s \<or>
      ((\<exists>file files. a = PricesFiles (file # files)) \<or> a = LoadSampleData)
       \<and> accepted (fetchOutcome h (length (fetches (trace s)))))"
    and "dataLoaded_returns (perform h a s) =
     (dataLoaded_returns s \<or>
      ((\<exists>file files. a = ReturnsFiles (file # files)) \<or> a = LoadSampleData)
       \<and> accepted (fetchOutcome h (length (fetches (trace s)))))"
    by simp_all
qed

lemma perform_all_flags:
  "dataLoaded_prices s \<Longrightarrow> dataLoaded_prices (perform_all h acts s)"
  "dataLoaded_returns s \<Longrightarrow> dataLoaded_returns (perform_all h acts s)"
  by (induction acts arbitrary: s) (simp_all add: perform_flags)

text \<open>
  C9. The availability flags only grow within a session. A flag that is set stays set
  through every sequence of actions of the user. One action changes a flag only from
  unset to set, and only when the action is an upload of the flag's dataset (a file list
  that is not empty) or the loading of the sample data, and the service has answered
  the action's first request with a success status and \<open>success\<close> true.
\<close>

theorem dataLoaded_monotone:
  "(dataLoaded_prices s \<longrightarrow> dataLoaded_prices (perform_all h acts s))
   \<and> (dataLoaded_returns s \<longrightarrow> dataLoaded_returns (perform_all h acts s))
   \<and> (dataLoaded_prices (perform h a s) \<noteq> dataLoaded_prices s \<longrightarrow>
        dataLoaded_prices (perform h a s)
        \<and> ((\<exists>file files. a = PricesFiles (file # files)) \<or> a = LoadSampleData)
        \<and> (\<exists>result. fetchOutcome h (length (fetches (trace s))) = Response True (Inr result)
                     \<and> success result))
   \<and> (dataLoaded_returns (perform h a s) \<noteq> dataLoaded_returns s \<longrightarrow>
        dataLoaded_returns (perform h a s)
        \<and> ((\<exists>file files. a = ReturnsFiles (file # files)) \<or> a = LoadSampleData)
        \<and> (\<exists>result. fetchOutcome h (length (fetches (trace s))) = Response True (Inr result)
                     \<and> success result))"
proof -
  have "dataLoaded_prices (perform h a s) \<noteq> dataLoaded_prices s \<longrightarrow>
        dataLoaded_prices (perform h a s)
        \<and> ((\<exists>file files. a = PricesFiles (file # files)) \<or> a = LoadSampleData)
        \<and> accepted (fetchOutcome h (length (fetches (trace s))))"
    unfolding perform_flags(1) by blast
  moreover have "dataLoaded_returns (perform h a s) \<noteq> dataLoaded_returns s \<longrightarrow>
        dataLoaded_returns (perform h a s)
        \<and> ((\<exists>file files. a = ReturnsFiles (file # files)) \<or> a = LoadSampleData)
        \<and> accepted (fetchOutcome h (length (fetches (trace s))))"
    unfolding perform_flags(2) by blast
  ultimately show ?thesis
    using perform_all_flags [of s h acts] unfolding accepted_def by blast
qed

theorem dataLoaded_monotone_witness:
  "dataLoaded_prices (perform (scripted [Response True (Inr (empty_body\<lparr>success := True\<rparr>))])
       (PricesFiles [''prices.csv'']) fresh_page) \<noteq> dataLoaded_prices fresh_page
   \<and> (\<exists>result. fetchOutcome (scripted [Response True (Inr (empty_body\<lparr>success := True\<rparr>))])
                  (length (fetches (trace fresh_page))) = Response True (Inr result)
               \<and> success result)
   \<and> dataLoaded_prices (perform_all (scripted [Response True (Inr (empty_body\<lparr>success := True\<rparr>))])
         [ResetFilters, ExportData, PricesFiles [''other.csv'']]
         (perform (scripted [Response True (Inr (empty_body\<lparr>success := True\<rparr>))])
            (PricesFiles [''prices.csv'']) fresh_page))"
proof -
  let ?h = "scripted [Response True (Inr (empty_body\<lparr>success := True\<rparr>))]"
  let ?s = "perform ?h (PricesFiles [''prices.csv'']) fresh_page"
  have page: "\<not> dataLoaded_prices fresh_page"
    and out: "fetchOutcome ?h (length (fetches (trace fresh_page)))
                = Response True (Inr (empty_body\<lparr>success := True\<rparr>))"
    and yes: "success (empty_body\<lparr>success := True\<rparr>)"
    by (simp_all add: scripted_def fresh_page_def)
  from out yes have "accepted (fetchOutcome ?h (length (fetches (trace fresh_page))))"
    unfolding accepted_def by blast
  with page perform_flags(1) [of ?h "PricesFiles [''prices.csv'']" fresh_page]
  have changed: "dataLoaded_prices ?s \<noteq> dataLoaded_prices fresh_page"
    by blast
  from changed dataLoaded_monotone [of fresh_page ?h "[]" "PricesFiles [''prices.csv'']"]
  have first: "dataLoaded_prices ?s
      \<and> (\<exists>result. fetchOutcome ?h (length (fetches (trace fresh_page))) = Response True (Inr result)
               \<and> success result)"
    by blast
  with dataLoaded_monotone [of ?s ?h "[ResetFilters, ExportData, PricesFiles [''other.csv'']]"]
  have "dataLoaded_prices (perform_all ?h [ResetFilters, ExportData, PricesFiles [''other.csv'']] ?s)"
    by blast
  with changed first show ?thesis by blast
qed

subsection \<open>Export\<close>

text \<open>
  C10. When the data type selected has no dataset loaded, \<open>exportData\<close> sends no
  request and downloads nothing: it shows a warning notification, and its \<open>finally\<close>
  hides the loading overlay.
\<close>

theorem exportData_not_loaded:
  assumes "(dataType s = ''prices'' \<and> \<not> dataLoaded_prices s) \<or>
           (dataType s = ''returns'' \<and> \<not> dataLoaded_returns s)"
  shows "fetches (trace (exportData h s)) = fetches (trace s)
       \<and> trace (exportData h s) =
           trace s @ [Notify (''No '' @ dataType s @ '' data loaded to export'') NWarning,
                      ShowLoading False]
       \<and> banner (exportData h s) = Some (''No '' @ dataType s @ '' data loaded to export'', NWarning)"
proof -
  from assms have "not_loaded s" by (simp add: not_loaded_def)
  then show ?thesis
    by (simp add: exportData_def showNotification_def showLoading_def)
qed

theorem exportData_not_loaded_witness:
  "dataType (fresh_page\<lparr>dataLoaded_prices := True, dataType := ''returns''\<rparr>) = ''returns''
   \<and> \<not> dataLoaded_returns (fresh_page\<lparr>dataLoaded_prices := True, dataType := ''returns''\<rparr>)
   \<and> fetches (trace (exportData (scripted [])
         (fresh_page\<lparr>dataLoaded_prices := True, dataType := ''returns''\<rparr>))) = []
   \<and> banner (exportData (scripted [])
         (fresh_page\<lparr>dataLoaded_prices := True, dataType := ''returns''\<rparr>))
       = Some (''No returns data loaded to export'', NWarning)"
proof -
  let ?s = "fresh_page\<lparr>dataLoaded_prices := True, dataType := ''returns''\<rparr>"
  have guard: "(dataType ?s = ''prices'' \<and> \<not> dataLoaded_prices ?s) \<or>
           (dataType ?s = ''returns'' \<and> \<not> dataLoaded_returns ?s)"
    by (simp add: fresh_page_def)
  show ?thesis
    using exportData_not_loaded [OF guard, of "scripted []"] by (simp add: fresh_page_def)
qed

subsection \<open>The bounds of the date controls\<close>

lemma refreshDataInfo_bounds:
  assumes "fetchOutcome h (length (fetches (trace s))) = Response True (Inr info)"
    and "prices_loaded info" and "prices_info info = Some pinfo"
    and "isoDay h (date_range_start pinfo) = Some a"
    and "isoDay h (date_range_end pinfo) = Some b"
  shows "startDate_min (refreshDataInfo h s) = a" "startDate_max (refreshDataInfo h s) = b"
    "endDate_min (refreshDataInfo h s) = a" "endDate_max (refreshDataInfo h s) = b"
    "startDate (refreshDataInfo h s) = (if startDate s = [] then a else startDate s)"
    "endDate (refreshDataInfo h s) = (if endDate s = [] then b else endDate s)"
proof -
  from assms(1) have r: "api_result (fetchOutcome h (length (fetches (trace s)))) = Inr info"
    by (simp add: api_result_def)
  show "startDate_min (refreshDataInfo h s) = a" "startDate_max (refreshDataInfo h s) = b"
    "endDate_min (refreshDataInfo h s) = a" "endDate_max (refreshDataInfo h s) = b"
    "startDate (refreshDataInfo h s) = (if startDate s = [] then a else startDate s)"
    "endDate (refreshDataInfo h s) = (if endDate s = [] then b else endDate s)"
    using assms(2-5)
    by (simp_all add: refreshDataInfo_eq r updateDataInfoDisplay_def updateDateInputs_def
        apiCall_eq Let_def split: option.splits)
qed

lemma refreshDataInfo_no_prices:
  assumes "\<forall>info pinfo. fetchOutcome h (length (fetches (trace s))) = Response True (Inr info)
              \<and> prices_info info = Some pinfo \<longrightarrow> \<not> prices_loaded info"
  shows "dates_kept s (refreshDataInfo h s)"
proof (cases "api_result (fetchOutcome h (length (fetches (trace s))))")
  case (Inl e)
  then show ?thesis
    by (simp add: refreshDataInfo_eq apiCall_eq console_error_def dates_kept_def)
next
  case (Inr info)
  then have "fetchOutcome h (length (fetches (trace s))) = Response True (Inr info)"
    by (simp add: api_result_Inr)
  with assms have "prices_info info = None \<or> \<not> prices_loaded info"
    by (cases "prices_info info") auto
  then show ?thesis
    by (auto simp: refreshDataInfo_eq Inr updateDataInfoDisplay_def apiCall_eq dates_kept_def
        Let_def split: option.splits)
qed

text \<open>
  C2 as stated fails: \<open>updateDataInfoDisplay\<close> calls \<open>updateDateInputs\<close> in its prices
  branch only. With returns selected and both datasets loaded, the bounds after a refresh
  are the range of the prices, not that of the returns.
\<close>

theorem refresh_bounds_returns_counterexample:
  "dataType (refreshDataInfo (scripted [Response True (Inr example_info)])
       (fresh_page\<lparr>dataLoaded_prices := True, dataLoaded_returns := True, dataType := ''returns''\<rparr>))
     = ''returns''
   \<and> returns_loaded example_info
   \<and> map_option date_range_start (returns_info example_info) = Some ''2021-01-31''
   \<and> map_option date_range_end (returns_info example_info) = Some ''2021-12-31''
   \<and> isoDay (scripted [Response True (Inr example_info)]) ''2021-01-31'' = Some ''2021-01-31''
   \<and> isoDay (scripted [Response True (Inr example_info)]) ''2021-12-31'' = Some ''2021-12-31''
   \<and> startDate_min (refreshDataInfo (scripted [Response True (Inr example_info)])
       (fresh_page\<lparr>dataLoaded_prices := True, dataLoaded_returns := True, dataType := ''returns''\<rparr>))
     = ''2020-01-02''
   \<and> startDate_max (refreshDataInfo (scripted [Response True (Inr example_info)])
       (fresh_page\<lparr>dataLoaded_prices := True, dataLoaded_returns := True, dataType := ''returns''\<rparr>))
     = ''2020-12-31''
   \<and> endDate_min (refreshDataInfo (scripted [Response True (Inr example_info)])
       (fresh_page\<lparr>dataLoaded_prices := True, dataLoaded_returns := True, dataType := ''returns''\<rparr>))
     = ''2020-01-02''
   \<and> endDate_max (refreshDataInfo (scripted [Response True (Inr example_info)])
       (fresh_page\<lparr>dataLoaded_prices := True, dataLoaded_returns := True, dataType := ''returns''\<rparr>))
     = ''2020-12-31''"
proof -
  let ?h = "scripted [Response True (Inr example_info)]"
  let ?s = "fresh_page\<lparr>dataLoaded_prices := True, dataLoaded_returns := True, dataType := ''returns''\<rparr>"
  have out: "fetchOutcome ?h (length (fetches (trace ?s))) = Response True (Inr example_info)"
    by (simp add: scripted_def fresh_page_def)
  have info: "prices_loaded example_info"
    "prices_info example_info = Some \<lparr>record_count = 253, date_range_start = ''2020-01-02'',
                            date_range_end = ''2020-12-31'', fund_availability = None\<rparr>"
    "returns_loaded example_info"
    "map_option date_range_start (returns_info example_info) = Some ''2021-01-31''"
    "map_option date_range_end (returns_info example_info) = Some ''2021-12-31''"
    by (simp_all add: example_info_def empty_body_def)
  have days: "isoDay ?h ''2020-01-02'' = Some ''2020-01-02''" "isoDay ?h ''2020-12-31'' = Some ''2020-12-31''"
    "isoDay ?h ''2021-01-31'' = Some ''2021-01-31''" "isoDay ?h ''2021-12-31'' = Some ''2021-12-31''"
    by (simp_all add: scripted_def)
  have sel: "dataType (refreshDataInfo ?h ?s) = ''returns''"
    using refreshDataInfo_kept(1) [of ?s ?h] by (simp add: selection_kept_def)
  note bounds = refreshDataInfo_bounds [OF out info(1) info(2), of "''2020-01-02''" "''2020-12-31''"]
  show ?thesis
    using sel info(3-5) days bounds by simp
qed

text \<open>
  C2, amended. After a data info refresh whose response reports a loaded prices dataset
  with valid dates, the bounds of both date controls are the date range of the prices
  dataset, whichever data type is selected. A refresh that fails, or whose response
  reports no prices dataset, leaves the bounds as they were. The data type selected is
  never changed by a refresh.
\<close>

theorem refresh_bounds_from_prices:
  "(\<forall>info pinfo a b.
      fetchOutcome h (length (fetches (trace s))) = Response True (Inr info)
      \<and> prices_loaded info \<and> prices_info info = Some pinfo
      \<and> isoDay h (date_range_start pinfo) = Some a \<and> isoDay h (date_range_end pinfo) = Some b \<longrightarrow>
      startDate_min (refreshDataInfo h s) = a \<and> startDate_max (refreshDataInfo h s) = b
      \<and> endDate_min (refreshDataInfo h s) = a \<and> endDate_max (refreshDataInfo h s) = b)
   \<and> ((\<forall>info pinfo. fetchOutcome h (length (fetches (trace s))) = Response True (Inr info)
              \<and> prices_info info = Some pinfo \<longrightarrow> \<not> prices_loaded info) \<longrightarrow>
      startDate_min (refreshDataInfo h s) = startDate_min s
      \<and> startDate_max (refreshDataInfo h s) = startDate_max s
      \<and> endDate_min (refreshDataInfo h s) = endDate_min s
      \<and> endDate_max (refreshDataInfo h s) = endDate_max s)
   \<and> dataType (refreshDataInfo h s) = dataType s"
proof -
  have "dataType (refreshDataInfo h s) = dataType s"
    using refreshDataInfo_kept(1) [of s h] by (simp add: selection_kept_def)
  then show ?thesis
    using refreshDataInfo_bounds [of h s] refreshDataInfo_no_prices [of h s]
    unfolding dates_kept_def by blast
qed

theorem refresh_bounds_from_prices_witness:
  "fetchOutcome (scripted [Response True (Inr example_info)])
       (length (fetches (trace (fresh_page\<lparr>dataType := ''returns''\<rparr>))))
     = Response True (Inr example_info)
   \<and> prices_loaded example_info
   \<and> startDate_min (refreshDataInfo (scripted [Response True (Inr example_info)])
        (fresh_page\<lparr>dataType := ''returns''\<rparr>)) = ''2020-01-02''
   \<and> endDate_max (refreshDataInfo (scripted [Response True (Inr example_info)])
        (fresh_page\<lparr>dataType := ''returns''\<rparr>)) = ''2020-12-31''
   \<and> startDate_min (refreshDataInfo (scripted []) (fresh_page\<lparr>startDate_min := ''2019-01-01''\<rparr>))
       = ''2019-01-01''"
proof -
  let ?h = "scripted [Response True (Inr example_info)]"
  let ?s = "fresh_page\<lparr>dataType := ''returns''\<rparr>"
  let ?t = "fresh_page\<lparr>startDate_min := ''2019-01-01''\<rparr>"
  have out: "fetchOutcome ?h (length (fetches (trace ?s))) = Response True (Inr example_info)"
    by (simp add: scripted_def fresh_page_def)
  have info: "prices_loaded example_info"
    "prices_info example_info = Some \<lparr>record_count = 253, date_range_start = ''2020-01-02'',
                            date_range_end = ''2020-12-31'', fund_availability = None\<rparr>"
    by (simp_all add: example_info_def empty_body_def)
  have days: "isoDay ?h ''2020-01-02'' = Some ''2020-01-02''" "isoDay ?h ''2020-12-31'' = Some ''2020-12-31''"
    by (simp_all add: scripted_def)
  note loaded_case = refresh_bounds_from_prices [of ?h ?s, THEN conjunct1, THEN spec, THEN spec,
      THEN spec, THEN spec, THEN mp]
  have reported: "fetchOutcome ?h (length (fetches (trace ?s))) = Response True (Inr example_info)
      \<and> prices_loaded example_info
      \<and> prices_info example_info = Some \<lparr>record_count = 253, date_range_start = ''2020-01-02'',
                            date_range_end = ''2020-12-31'', fund_availability = None\<rparr>
      \<and> isoDay ?h (date_range_start \<lparr>record_count = 253, date_range_start = ''2020-01-02'',
                            date_range_end = ''2020-12-31'', fund_availability = None\<rparr>)
          = Some ''2020-01-02''
      \<and> isoDay ?h (date_range_end \<lparr>record_count = 253, date_range_start = ''2020-01-02'',
                            date_range_end = ''2020-12-31'', fund_availability = None\<rparr>)
          = Some ''2020-12-31''"
    using out info days by simp
  from loaded_case [OF reported]
  have loaded: "startDate_min (refreshDataInfo ?h ?s) = ''2020-01-02''
      \<and> endDate_max (refreshDataInfo ?h ?s) = ''2020-12-31''"
    by simp
  have failed: "\<forall>info pinfo. fetchOutcome (scripted []) (length (fetches (trace ?t)))
                  = Response True (Inr info) \<and> prices_info info = Some pinfo \<longrightarrow> \<not> prices_loaded info"
    by (simp add: scripted_def)
  from refresh_bounds_from_prices [of "scripted []" ?t, THEN conjunct2, THEN conjunct1, THEN mp,
      OF failed, THEN conjunct1]
  have "startDate_min (refreshDataInfo (scripted []) ?t) = ''2019-01-01''"
    by (simp add: fresh_page_def)
  with out info(1) loaded show ?thesis by simp
qed

subsection \<open>Reset\<close>

lemma updateChart_finish_fetches:
  "\<exists>rest. fetches (trace (updateChart_finish h (dt, ct, outcome) s)) = fetches (trace s) @ rest"
proof (cases "chart_payload outcome")
  case None
  then show ?thesis by (simp add: updateChart_finish_None)
next
  case (Some d)
  then show ?thesis by (simp add: updateChart_finish_Some updateStatistics_fetches)
qed

text \<open>The requests of \<open>resetFilters\<close>, from the state that its refresh has left.\<close>

lemma resetFilters_fetches:
  fixes h s
  defines "s3 \<equiv> refreshDataInfo h ((setupFundSelection (s\<lparr>selectedFunds := all_funds\<rparr>))
         \<lparr>dataType := ''prices'', chartType := ''line''\<rparr>)"
  shows "not_loaded s3 \<Longrightarrow> fetches (trace (resetFilters h s)) = fetches (trace s3)"
    and "not_loaded s3 \<Longrightarrow>
           banner (resetFilters h s) = Some (''Filters reset successfully!'', NSuccess)"
    and "not_loaded s3 \<Longrightarrow>
           Notify (''No '' @ dataType s3 @ '' data loaded. Please upload a CSV file first.'') NWarning
             \<in> set (trace (resetFilters h s))"
    and "\<not> not_loaded s3 \<Longrightarrow>
           \<exists>rest. fetches (trace (resetFilters h s)) =
             fetches (trace s3) @
               Request ''/chart-data'' ''POST'' (JsonPayload (current_filter s3)) # rest"
proof -
  show "fetches (trace (resetFilters h s)) = fetches (trace s3)"
    and "banner (resetFilters h s) = Some (''Filters reset successfully!'', NSuccess)"
    and "Notify (''No '' @ dataType s3 @ '' data loaded. Please upload a CSV file first.'') NWarning
             \<in> set (trace (resetFilters h s))"
    if "not_loaded s3"
    using that
    by (simp_all add: resetFilters_def Let_def s3_def [symmetric] updateChart_start_def
        showNotification_def)
  show "\<exists>rest. fetches (trace (resetFilters h s)) =
             fetches (trace s3) @
               Request ''/chart-data'' ''POST'' (JsonPayload (current_filter s3)) # rest"
    if loaded: "\<not> not_loaded s3"
  proof -
    let ?t = "showNotification ''Filters reset successfully!'' NSuccess
                (s3\<lparr>loadingVisible := True,
                    trace := trace s3 @ [ShowLoading True,
                      Fetch (Request ''/chart-data'' ''POST'' (JsonPayload (current_filter s3)))]\<rparr>)"
    let ?outcome = "fetchOutcome h (length (fetches (trace s3)))"
    have run: "resetFilters h s = updateChart_finish h (dataType s3, chartType s3, ?outcome) ?t"
      by (simp add: resetFilters_def Let_def s3_def [symmetric] updateChart_start_Inr [OF loaded])
    obtain rest where "fetches (trace (updateChart_finish h (dataType s3, chartType s3, ?outcome) ?t))
        = fetches (trace ?t) @ rest"
      using updateChart_finish_fetches by blast
    then show ?thesis
      by (simp add: run showNotification_def)
  qed
qed

subsection \<open>The statistics cards\<close>

text \<open>What the card renderer does right: no data, a missing change, a null minimum.\<close>

lemma statCard_no_data:
  "st_current stats = Null \<or> st_current stats = Undefined \<Longrightarrow>
   statCard dt fund stats =
     Inr [StatLabel fund,
          StatValue ''stat-value neutral'' (fundColor fund) [Lit ''No Data''],
          Muted [Val (st_data_coverage stats), Lit ''% coverage'']]"
  by (simp add: statCard_def)

lemma statCard_missing_change:
  assumes "st_current stats = Num c" and "st_change stats = Null \<or> st_change stats = Undefined"
    and "st_min stats = Null"
  shows "statCard dt fund stats =
     Inr [StatLabel fund,
          StatValue ''stat-value'' (fundColor fund)
            (if dt = ''prices'' then [Lit ''$'', Fixed2 c] else [Fixed2 c, Lit ''%'']),
          StatValue ''stat-value neutral'' []
            ([Lit [], Fixed2 0] @ (if dt = ''prices'' then [] else [Lit ''%''])),
          Muted [Lit ''Coverage: '', Val (st_data_coverage stats), Lit ''% ('',
                 Val (st_count stats), Lit ''/'', Val (st_total_periods stats), Lit '')'']]"
  using assms by (auto simp: statCard_def rangeLine_def toFixed2_def or_zero_def)

lemma rangeLine_throws:
  "(\<exists>e. rangeLine stats = Inl e) \<longleftrightarrow>
     st_min stats = Undefined \<or> (st_min stats \<noteq> Null \<and> (st_max stats = Null \<or> st_max stats = Undefined))"
  by (cases "st_min stats"; cases "st_max stats") (simp_all add: rangeLine_def toFixed2_def)

lemma statCard_throws:
  "(\<exists>e. statCard dt fund stats = Inl e) \<longleftrightarrow>
     st_current stats \<noteq> Null \<and> st_current stats \<noteq> Undefined \<and>
     (st_min stats = Undefined \<or> (st_min stats \<noteq> Null \<and> (st_max stats = Null \<or> st_max stats = Undefined)))"
proof (cases "st_current stats")
  case (Num c)
  show ?thesis
    using rangeLine_throws [of stats]
    by (cases "rangeLine stats") (auto simp: statCard_def Num toFixed2_def Let_def)
qed (simp_all add: statCard_def)

text \<open>
  C1. The parts of the claim about a missing \<open>current\<close> and a missing \<open>change\<close> hold
  (\<open>statCard_no_data\<close>, \<open>statCard_missing_change\<close>), but the guard of the range line
  is \<open>stats.min !== null\<close>, which \<open>undefined\<close> passes: for an entry with data whose
  \<open>min\<close> key is missing, \<open>stats.min.toFixed(2)\<close> throws a TypeError. The \<open>catch\<close> of
  \<open>updateStatistics\<close> then replaces the whole panel by the error placeholder, also the
  cards of the funds rendered before.
\<close>

theorem statCard_missing_min_throws:
  "statCard ''prices'' ''GFund'' stats_without_min
     = Inl (TypeError ''Cannot read properties of undefined'')
   \<and> statsGrid (updateStatistics
        (scripted [Response True
           (Inr (empty_body\<lparr>success := True,
                             statistics := Some [(''GFund'', stats_without_min)]\<rparr>))])
        (fresh_page\<lparr>dataLoaded_prices := True\<rparr>))
     = [ErrorPlaceholder]"
proof -
  have card: "statCard ''prices'' ''GFund'' stats_without_min
     = Inl (TypeError ''Cannot read properties of undefined'')"
    by (simp add: statCard_def rangeLine_def toFixed2_def stats_without_min_def Let_def)
  have cards: "statCards ''prices'' [(''GFund'', stats_without_min)] all_funds
     = Inl (TypeError ''Cannot read properties of undefined'')"
    by (simp add: all_funds_def card)
  show ?thesis
    by (simp add: card updateStatistics_def updateStatistics_finish_def apiCall_start_eq
        apiCall_finish_eq api_result_def scripted_def fresh_page_def empty_body_def cards
        statistics_failed_def console_error_def)
qed

subsection \<open>The text of a rejected upload's notification\<close>


lemma markup_free_append: "markup_free (x @ y) \<longleftrightarrow> markup_free x \<and> markup_free y"
  by (auto simp: markup_free_def)




subsection \<open>The statistics panel after a redraw\<close>

lemma updateStatistics_grid:
  "statsGrid (updateStatistics h s) =
     statistics_panel (dataType s) (selectedFunds s) (fetchOutcome h (length (fetches (trace s))))"
  by (simp add: updateStatistics_def apiCall_start_eq updateStatistics_finish_def apiCall_finish_eq
      statistics_panel_def statistics_failed_def console_error_def
      split: sum.splits option.splits)

lemma updateChart_finish_redraws:
  assumes "chart_payload outcome = Some d"
  shows "chart_labels (updateChart_finish h (dt, ct, outcome) s) = cd_labels d"
    and "chart_datasets (updateChart_finish h (dt, ct, outcome) s) = map (styleDataset ct) (cd_datasets d)"
    and "chartTitle (updateChart_finish h (dt, ct, outcome) s)
           = (if dt = ''prices'' then ''Share Price'' else ''Return Rate'') @ '' Analysis''"
    and "yAxisTitle (updateChart_finish h (dt, ct, outcome) s)
           = (if dt = ''prices'' then ''Price ($)'' else ''Return Rate (%)'')"
    and "statsGrid (updateChart_finish h (dt, ct, outcome) s)
           = statistics_panel (dataType s) (selectedFunds s) (fetchOutcome h (length (fetches (trace s))))"
    and "fetches (trace (updateChart_finish h (dt, ct, outcome) s))
           = fetches (trace s) @ [Request ''/statistics'' ''POST'' (JsonPayload (current_filter s))]"
proof -
  let ?u = "s\<lparr>loadingVisible := False, trace := trace s @ [ShowLoading False],
                chartTitle := (if dt = ''prices'' then ''Share Price'' else ''Return Rate'') @ '' Analysis'',
                chart_labels := cd_labels d,
                chart_datasets := map (styleDataset ct) (cd_datasets d),
                yAxisTitle := (if dt = ''prices'' then ''Price ($)'' else ''Return Rate (%)'')\<rparr>"
  have run: "updateChart_finish h (dt, ct, outcome) s = updateStatistics h ?u"
    by (rule updateChart_finish_Some [OF assms])
  have "chart_kept ?u (updateStatistics h ?u)"
    by (rule updateStatistics_kept)
  then show "chart_labels (updateChart_finish h (dt, ct, outcome) s) = cd_labels d"
    and "chart_datasets (updateChart_finish h (dt, ct, outcome) s) = map (styleDataset ct) (cd_datasets d)"
    and "chartTitle (updateChart_finish h (dt, ct, outcome) s)
           = (if dt = ''prices'' then ''Share Price'' else ''Return Rate'') @ '' Analysis''"
    and "yAxisTitle (updateChart_finish h (dt, ct, outcome) s)
           = (if dt = ''prices'' then ''Price ($)'' else ''Return Rate (%)'')"
    unfolding run by (simp_all add: chart_kept_def)
  show "statsGrid (updateChart_finish h (dt, ct, outcome) s)
           = statistics_panel (dataType s) (selectedFunds s) (fetchOutcome h (length (fetches (trace s))))"
    unfolding run by (simp add: updateStatistics_grid)
  show "fetches (trace (updateChart_finish h (dt, ct, outcome) s))
           = fetches (trace s) @ [Request ''/statistics'' ''POST'' (JsonPayload (current_filter s))]"
    unfolding run by (simp add: updateStatistics_fetches current_filter_def)
qed

lemma updateChart_panel:
  assumes "\<not> not_loaded s"
    and "chart_payload (fetchOutcome h (length (fetches (trace s)))) = Some d"
  shows "statsGrid (updateChart h s)
           = statistics_panel (dataType s) (selectedFunds s)
               (fetchOutcome h (Suc (length (fetches (trace s)))))"
    and "chartTitle (updateChart h s)
           = (if dataType s = ''prices'' then ''Share Price'' else ''Return Rate'') @ '' Analysis''"
    and "yAxisTitle (updateChart h s)
           = (if dataType s = ''prices'' then ''Price ($)'' else ''Return Rate (%)'')"
  by (simp_all add: updateChart_def updateChart_start_Inr [OF assms(1)]
      updateChart_finish_redraws [OF assms(2)])

text \<open>
  Two overlapping runs whose chart requests both succeed: the chart ends with the data of
  the first request, the statistics are requested twice for the changed start date.
\<close>

lemma updateChart_overlapped_stale:
  assumes loaded: "\<not> not_loaded s"
    and first: "chart_payload (fetchOutcome h (length (fetches (trace s)))) = Some d1"
    and second: "chart_payload (fetchOutcome h (Suc (length (fetches (trace s))))) = Some d2"
  shows "chart_labels (updateChart_overlapped h v s) = cd_labels d1"
    and "fetches (trace (updateChart_overlapped h v s)) =
           fetches (trace s) @
             [Request ''/chart-data'' ''POST'' (JsonPayload (current_filter s)),
              Request ''/chart-data'' ''POST'' (JsonPayload ((current_filter s)\<lparr>start_date := v\<rparr>)),
              Request ''/statistics'' ''POST'' (JsonPayload ((current_filter s)\<lparr>start_date := v\<rparr>)),
              Request ''/statistics'' ''POST'' (JsonPayload ((current_filter s)\<lparr>start_date := v\<rparr>))]"
    and "startDate (updateChart_overlapped h v s) = v"
proof -
  let ?o1 = "fetchOutcome h (length (fetches (trace s)))"
  let ?o2 = "fetchOutcome h (Suc (length (fetches (trace s))))"
  let ?s1 = "s\<lparr>loadingVisible := True,
            trace := trace s @ [ShowLoading True,
              Fetch (Request ''/chart-data'' ''POST'' (JsonPayload (current_filter s)))]\<rparr>"
  let ?c = "?s1\<lparr>startDate := v\<rparr>"
  let ?s2 = "?c\<lparr>loadingVisible := True,
            trace := trace ?c @ [ShowLoading True,
              Fetch (Request ''/chart-data'' ''POST'' (JsonPayload (current_filter ?c)))]\<rparr>"
  let ?s3 = "updateChart_finish h (dataType s, chartType s, ?o2) ?s2"
  let ?s4 = "updateChart_finish h (dataType s, chartType s, ?o1) ?s3"
  have start1: "updateChart_start h s = Inr ((dataType s, chartType s, ?o1), ?s1)"
    by (rule updateChart_start_Inr [OF loaded])
  have "\<not> not_loaded ?c"
    using loaded by (simp add: not_loaded_def)
  from updateChart_start_Inr [OF this, of h]
  have start2: "updateChart_start h ?c = Inr ((dataType s, chartType s, ?o2), ?s2)"
    by simp
  have run: "updateChart_overlapped h v s = ?s4"
    by (simp add: updateChart_overlapped_def start1 start2)
  have filter2: "current_filter ?s2 = (current_filter s)\<lparr>start_date := v\<rparr>"
    "current_filter ?c = (current_filter s)\<lparr>start_date := v\<rparr>"
    by (simp_all add: current_filter_def)
  have kept3: "selection_kept ?s2 ?s3" "dates_kept ?s2 ?s3"
    by (rule updateChart_finish_kept)+
  then have filter3: "current_filter ?s3 = (current_filter s)\<lparr>start_date := v\<rparr>"
    using filter2(1) by (simp add: current_filter_kept)
  have fetches3: "fetches (trace ?s3) =
      fetches (trace ?s2) @ [Request ''/statistics'' ''POST'' (JsonPayload (current_filter ?s2))]"
    by (rule updateChart_finish_redraws(6) [OF second])
  have fetches4: "fetches (trace ?s4) =
      fetches (trace ?s3) @ [Request ''/statistics'' ''POST'' (JsonPayload (current_filter ?s3))]"
    by (rule updateChart_finish_redraws(6) [OF first])
  have kept4: "dates_kept ?s3 ?s4"
    by (rule updateChart_finish_kept)
  show "chart_labels (updateChart_overlapped h v s) = cd_labels d1"
    unfolding run by (rule updateChart_finish_redraws(1) [OF first])
  show "fetches (trace (updateChart_overlapped h v s)) =
           fetches (trace s) @
             [Request ''/chart-data'' ''POST'' (JsonPayload (current_filter s)),
              Request ''/chart-data'' ''POST'' (JsonPayload ((current_filter s)\<lparr>start_date := v\<rparr>)),
              Request ''/statistics'' ''POST'' (JsonPayload ((current_filter s)\<lparr>start_date := v\<rparr>)),
              Request ''/statistics'' ''POST'' (JsonPayload ((current_filter s)\<lparr>start_date := v\<rparr>))]"
  proof -
    have "fetches (trace (updateChart_overlapped h v s)) = fetches (trace ?s4)"
      by (simp only: run)
    also have "\<dots> = fetches (trace ?s3) @
        [Request ''/statistics'' ''POST'' (JsonPayload ((current_filter s)\<lparr>start_date := v\<rparr>))]"
      using fetches4 filter3 by simp
    also have "\<dots> = (fetches (trace ?s2) @
        [Request ''/statistics'' ''POST'' (JsonPayload ((current_filter s)\<lparr>start_date := v\<rparr>))]) @
        [Request ''/statistics'' ''POST'' (JsonPayload ((current_filter s)\<lparr>start_date := v\<rparr>))]"
      using fetches3 filter2(1) by simp
    also have "fetches (trace ?s2) = fetches (trace s) @
        [Request ''/chart-data'' ''POST'' (JsonPayload (current_filter s)),
         Request ''/chart-data'' ''POST'' (JsonPayload ((current_filter s)\<lparr>start_date := v\<rparr>))]"
      by (simp add: filter2)
    finally show ?thesis by simp
  qed
  show "startDate (updateChart_overlapped h v s) = v"
    unfolding run using kept3(2) kept4 by (simp add: dates_kept_def)
qed

text \<open>
  C7 as stated fails in its last part: \<open>updateStatistics\<close> reads the controls again when it
  is called, after the chart request has settled. With the start date changed from
  2020-01-02 to 2020-06-01 while a chart request is pending and the two responses arriving
  in the other order, the chart ends with the data for the range from 2020-01-02 (the
  label of the first response) while the statistics were requested for the range from
  2020-06-01.
\<close>

theorem overlapping_updates_counterexample:
  "chart_labels (updateChart_overlapped
      (scripted [Response True (Inr (chart_from ''2020-01-02'')),
                 Response True (Inr (chart_from ''2020-06-01'')),
                 Response True (Inr example_statistics), Response True (Inr example_statistics)])
      ''2020-06-01''
      (fresh_page\<lparr>dataLoaded_prices := True, startDate := ''2020-01-02'', endDate := ''2020-12-31''\<rparr>))
     = [JStr ''2020-01-02'']
   \<and> startDate (updateChart_overlapped
      (scripted [Response True (Inr (chart_from ''2020-01-02'')),
                 Response True (Inr (chart_from ''2020-06-01'')),
                 Response True (Inr example_statistics), Response True (Inr example_statistics)])
      ''2020-06-01''
      (fresh_page\<lparr>dataLoaded_prices := True, startDate := ''2020-01-02'', endDate := ''2020-12-31''\<rparr>))
     = ''2020-06-01''
   \<and> fetches (trace (updateChart_overlapped
      (scripted [Response True (Inr (chart_from ''2020-01-02'')),
                 Response True (Inr (chart_from ''2020-06-01'')),
                 Response True (Inr example_statistics), Response True (Inr example_statistics)])
      ''2020-06-01''
      (fresh_page\<lparr>dataLoaded_prices := True, startDate := ''2020-01-02'', endDate := ''2020-12-31''\<rparr>)))
     = [Request ''/chart-data'' ''POST''
          (JsonPayload \<lparr>data_type = ''prices'', start_date = ''2020-01-02'', end_date = ''2020-12-31'',
                         funds = all_funds\<rparr>),
        Request ''/chart-data'' ''POST''
          (JsonPayload \<lparr>data_type = ''prices'', start_date = ''2020-06-01'', end_date = ''2020-12-31'',
                         funds = all_funds\<rparr>),
        Request ''/statistics'' ''POST''
          (JsonPayload \<lparr>data_type = ''prices'', start_date = ''2020-06-01'', end_date = ''2020-12-31'',
                         funds = all_funds\<rparr>),
        Request ''/statistics'' ''POST''
          (JsonPayload \<lparr>data_type = ''prices'', start_date = ''2020-06-01'', end_date = ''2020-12-31'',
                         funds = all_funds\<rparr>)]"
proof -
  let ?h = "scripted [Response True (Inr (chart_from ''2020-01-02'')),
                 Response True (Inr (chart_from ''2020-06-01'')),
                 Response True (Inr example_statistics), Response True (Inr example_statistics)]"
  let ?s = "fresh_page\<lparr>dataLoaded_prices := True, startDate := ''2020-01-02'', endDate := ''2020-12-31''\<rparr>"
  have loaded: "\<not> not_loaded ?s"
    by (simp add: not_loaded_def fresh_page_def)
  have none: "trace fresh_page = []"
    by (simp add: fresh_page_def)
  have first: "chart_payload (fetchOutcome ?h (length (fetches (trace ?s))))
                 = Some \<lparr>cd_labels = [JStr ''2020-01-02''], cd_datasets = []\<rparr>"
    and second: "chart_payload (fetchOutcome ?h (Suc (length (fetches (trace ?s)))))
                 = Some \<lparr>cd_labels = [JStr ''2020-06-01''], cd_datasets = []\<rparr>"
    by (simp_all add: none chart_payload_def api_result_def scripted_def chart_from_def empty_body_def)
  have filter: "current_filter ?s =
      \<lparr>data_type = ''prices'', start_date = ''2020-01-02'', end_date = ''2020-12-31'', funds = all_funds\<rparr>"
    by (simp add: current_filter_def fresh_page_def)
  show ?thesis
    using updateChart_overlapped_stale [OF loaded first second, of "''2020-06-01''"]
    by (simp add: none filter)
qed

text \<open>
  C7, amended. A chart response with \<open>success\<close> false (whatever its HTTP status) ends
  \<open>updateChart\<close> with an error notification; the labels, the datasets, the titles of the
  chart and the statistics panel are those of before, and no statistics request is sent.
  In a run of \<open>updateChart\<close> during which no control and no selection changes, the
  requests sent contain a statistics request exactly when the chart has been redrawn, that
  is when the guard has let the run pass and the chart request has come back with a
  success status, \<open>success\<close> true and chart data. The chart then has the labels and the
  styled datasets of the response, the statistics request carries the filter of the chart
  request, and the panel is the one that the spec describes for the outcome of the
  statistics request, for the data type and the selection of the run.
\<close>

theorem statistics_follow_chart:
  "(\<not> not_loaded s \<and> fetchOutcome h (length (fetches (trace s))) = Response ok (Inr chartData)
      \<and> \<not> success chartData \<longrightarrow>
      (\<exists>msg. banner (updateChart h s) = Some (msg, NError))
      \<and> (ok \<longrightarrow> banner (updateChart h s) =
            Some (''Error getting chart data: '' @ interpolate (message chartData), NError))
      \<and> chart_labels (updateChart h s) = chart_labels s
      \<and> chart_datasets (updateChart h s) = chart_datasets s
      \<and> chartTitle (updateChart h s) = chartTitle s
      \<and> yAxisTitle (updateChart h s) = yAxisTitle s
      \<and> statsGrid (updateChart h s) = statsGrid s
      \<and> fetches (trace (updateChart h s)) =
          fetches (trace s) @ [Request ''/chart-data'' ''POST'' (JsonPayload (current_filter s))])
   \<and> ((\<exists>p. Request ''/statistics'' ''POST'' p
             \<in> set (drop (length (fetches (trace s))) (fetches (trace (updateChart h s)))))
        \<longleftrightarrow>
        (\<not> not_loaded s \<and>
         (\<exists>body d. fetchOutcome h (length (fetches (trace s))) = Response True (Inr body)
                   \<and> success body \<and> data body = Some d)))
   \<and> (\<forall>body d. \<not> not_loaded s
          \<and> fetchOutcome h (length (fetches (trace s))) = Response True (Inr body)
          \<and> success body \<and> data body = Some d \<longrightarrow>
          chart_labels (updateChart h s) = cd_labels d
          \<and> chart_datasets (updateChart h s) = map (styleDataset (chartType s)) (cd_datasets d)
          \<and> statsGrid (updateChart h s) =
              statistics_panel (dataType s) (selectedFunds s)
                (fetchOutcome h (Suc (length (fetches (trace s)))))
          \<and> fetches (trace (updateChart h s)) =
              fetches (trace s) @
                [Request ''/chart-data'' ''POST'' (JsonPayload (current_filter s)),
                 Request ''/statistics'' ''POST'' (JsonPayload (current_filter s))])"
proof -
  let ?outcome = "fetchOutcome h (length (fetches (trace s)))"
  let ?t = "s\<lparr>loadingVisible := True,
            trace := trace s @ [ShowLoading True,
              Fetch (Request ''/chart-data'' ''POST'' (JsonPayload (current_filter s)))]\<rparr>"
  have rejected: "(\<exists>msg. banner (updateChart h s) = Some (msg, NError))
      \<and> (ok \<longrightarrow> banner (updateChart h s) =
            Some (''Error getting chart data: '' @ interpolate (message chartData), NError))
      \<and> chart_labels (updateChart h s) = chart_labels s
      \<and> chart_datasets (updateChart h s) = chart_datasets s
      \<and> chartTitle (updateChart h s) = chartTitle s
      \<and> yAxisTitle (updateChart h s) = yAxisTitle s
      \<and> statsGrid (updateChart h s) = statsGrid s
      \<and> fetches (trace (updateChart h s)) =
          fetches (trace s) @ [Request ''/chart-data'' ''POST'' (JsonPayload (current_filter s))]"
    if loaded: "\<not> not_loaded s" and out: "?outcome = Response ok (Inr chartData)"
      and no: "\<not> success chartData"
  proof -
    have none: "chart_payload ?outcome = None"
      using out no by (simp add: chart_payload_def api_result_def)
    have run: "updateChart h s = updateChart_finish h (dataType s, chartType s, ?outcome) ?t"
      by (simp add: updateChart_def updateChart_start_Inr [OF loaded])
    have title: "chartTitle (updateChart_finish h (dataType s, chartType s, ?outcome) ?t) = chartTitle ?t"
      using out no
      by (simp add: updateChart_finish_def apiCall_finish_eq api_result_def chart_failed_def
          showNotification_def console_error_def)
    have shown: "ok \<longrightarrow> banner (updateChart_finish h (dataType s, chartType s, ?outcome) ?t) =
            Some (''Error getting chart data: '' @ interpolate (message chartData), NError)"
      using out no
      by (simp add: updateChart_finish_def apiCall_finish_eq api_result_def showNotification_def)
    from updateChart_finish_None [OF none, where h = h and dt = "dataType s" and ct = "chartType s" and s = ?t] title shown
    show ?thesis
      unfolding run by simp
  qed
  have payload: "(\<exists>d. chart_payload ?outcome = Some d) \<longleftrightarrow>
      (\<exists>body d. ?outcome = Response True (Inr body) \<and> success body \<and> data body = Some d)"
    by (auto simp: chart_payload_Some)
  have triggered: "(\<exists>p. Request ''/statistics'' ''POST'' p
             \<in> set (drop (length (fetches (trace s))) (fetches (trace (updateChart h s)))))
        \<longleftrightarrow> (\<not> not_loaded s \<and> (\<exists>d. chart_payload ?outcome = Some d))"
    by (cases "chart_payload ?outcome") (simp_all add: updateChart_fetches)
  have redrawn: "chart_labels (updateChart h s) = cd_labels d
          \<and> chart_datasets (updateChart h s) = map (styleDataset (chartType s)) (cd_datasets d)
          \<and> statsGrid (updateChart h s) =
              statistics_panel (dataType s) (selectedFunds s)
                (fetchOutcome h (Suc (length (fetches (trace s)))))
          \<and> fetches (trace (updateChart h s)) =
              fetches (trace s) @
                [Request ''/chart-data'' ''POST'' (JsonPayload (current_filter s)),
                 Request ''/statistics'' ''POST'' (JsonPayload (current_filter s))]"
    if loaded: "\<not> not_loaded s" and out: "?outcome = Response True (Inr body)"
      and yes: "success body" and d: "data body = Some d" for body d
  proof -
    from out yes d have some: "chart_payload ?outcome = Some d"
      by (auto simp: chart_payload_Some)
    with loaded updateChart_redraws [OF loaded some] updateChart_panel(1) [OF loaded some]
    show ?thesis
      by (simp add: updateChart_fetches)
  qed
  from rejected triggered redrawn show ?thesis
    unfolding payload by blast
qed

theorem statistics_follow_chart_witness:
  "banner (updateChart (scripted [Response True (Inr (empty_body\<lparr>message := Some ''bad range''\<rparr>))])
             (fresh_page\<lparr>dataLoaded_prices := True, chart_labels := [JStr ''2023-12-29'']\<rparr>))
     = Some (''Error getting chart data: bad range'', NError)
   \<and> chart_labels (updateChart (scripted [Response True (Inr (empty_body\<lparr>message := Some ''bad range''\<rparr>))])
             (fresh_page\<lparr>dataLoaded_prices := True, chart_labels := [JStr ''2023-12-29'']\<rparr>))
     = [JStr ''2023-12-29'']
   \<and> fetches (trace (updateChart (scripted [Response True (Inr (empty_body\<lparr>message := Some ''bad range''\<rparr>))])
             (fresh_page\<lparr>dataLoaded_prices := True, chart_labels := [JStr ''2023-12-29'']\<rparr>)))
     = [Request ''/chart-data'' ''POST''
          (JsonPayload \<lparr>data_type = ''prices'', start_date = [], end_date = [], funds = all_funds\<rparr>)]
   \<and> fetches (trace (updateChart
             (scripted [Response True (Inr (empty_body\<lparr>success := True, data := Some example_chart\<rparr>))])
             (fresh_page\<lparr>dataLoaded_prices := True, chart_labels := [JStr ''2023-12-29'']\<rparr>)))
     = [Request ''/chart-data'' ''POST''
          (JsonPayload \<lparr>data_type = ''prices'', start_date = [], end_date = [], funds = all_funds\<rparr>),
        Request ''/statistics'' ''POST''
          (JsonPayload \<lparr>data_type = ''prices'', start_date = [], end_date = [], funds = all_funds\<rparr>)]
   \<and> statsGrid (updateChart
             (scripted [Response True (Inr (empty_body\<lparr>success := True, data := Some example_chart\<rparr>)),
                        Response True (Inr example_statistics)])
             (fresh_page\<lparr>dataLoaded_prices := True, chart_labels := [JStr ''2023-12-29'']\<rparr>))
     = [StatCard [StatLabel ''SFund'',
                  StatValue ''stat-value neutral'' ''#f44336'' [Lit ''No Data''],
                  Muted [Val (Num 0), Lit ''% coverage'']]]"
proof -
  let ?no = "empty_body\<lparr>message := Some ''bad range''\<rparr>"
  let ?yes = "empty_body\<lparr>success := True, data := Some example_chart\<rparr>"
  let ?s = "fresh_page\<lparr>dataLoaded_prices := True, chart_labels := [JStr ''2023-12-29'']\<rparr>"
  have loaded: "\<not> not_loaded ?s"
    by (simp add: not_loaded_def fresh_page_def)
  have no: "fetchOutcome (scripted [Response True (Inr ?no)]) (length (fetches (trace ?s)))
              = Response True (Inr ?no)" "\<not> success ?no" "message ?no = Some ''bad range''"
    by (simp_all add: scripted_def fresh_page_def empty_body_def)
  have yes: "fetchOutcome (scripted [Response True (Inr ?yes)]) (length (fetches (trace ?s)))
              = Response True (Inr ?yes)" "success ?yes" "data ?yes = Some example_chart"
    by (simp_all add: scripted_def fresh_page_def empty_body_def)
  have filter: "current_filter ?s =
      \<lparr>data_type = ''prices'', start_date = [], end_date = [], funds = all_funds\<rparr>"
    "trace fresh_page = []" "message empty_body = None" "\<not> success empty_body"
    by (simp_all add: current_filter_def fresh_page_def empty_body_def)
  from statistics_follow_chart [of ?s "scripted [Response True (Inr ?no)]" True ?no] loaded no
  have "banner (updateChart (scripted [Response True (Inr ?no)]) ?s)
          = Some (''Error getting chart data: bad range'', NError)
      \<and> chart_labels (updateChart (scripted [Response True (Inr ?no)]) ?s) = [JStr ''2023-12-29'']
      \<and> fetches (trace (updateChart (scripted [Response True (Inr ?no)]) ?s))
          = [Request ''/chart-data'' ''POST''
              (JsonPayload \<lparr>data_type = ''prices'', start_date = [], end_date = [], funds = all_funds\<rparr>)]"
    by (simp add: filter interpolate_def)
  moreover
  from statistics_follow_chart [of ?s "scripted [Response True (Inr ?yes)]"] loaded yes
  have "fetches (trace (updateChart (scripted [Response True (Inr ?yes)]) ?s))
     = [Request ''/chart-data'' ''POST''
          (JsonPayload \<lparr>data_type = ''prices'', start_date = [], end_date = [], funds = all_funds\<rparr>),
        Request ''/statistics'' ''POST''
          (JsonPayload \<lparr>data_type = ''prices'', start_date = [], end_date = [], funds = all_funds\<rparr>)]"
    by (simp add: filter)
  moreover
  have panel: "fetchOutcome (scripted [Response True (Inr ?yes), Response True (Inr example_statistics)])
                 (length (fetches (trace ?s))) = Response True (Inr ?yes)"
    "statistics_panel (dataType ?s) (selectedFunds ?s)
       (fetchOutcome (scripted [Response True (Inr ?yes), Response True (Inr example_statistics)])
          (Suc (length (fetches (trace ?s)))))
     = [StatCard [StatLabel ''SFund'',
                  StatValue ''stat-value neutral'' ''#f44336'' [Lit ''No Data''],
                  Muted [Val (Num 0), Lit ''% coverage'']]]"
    by (simp_all add: scripted_def fresh_page_def statistics_panel_def api_result_def
        example_statistics_def empty_body_def all_funds_def statCard_def fundColor_def
        fundColors_def)
  from statistics_follow_chart [of ?s
      "scripted [Response True (Inr ?yes), Response True (Inr example_statistics)]"]
    loaded panel(1) yes(2,3)
  have "statsGrid (updateChart
          (scripted [Response True (Inr ?yes), Response True (Inr example_statistics)]) ?s)
        = statistics_panel (dataType ?s) (selectedFunds ?s)
            (fetchOutcome (scripted [Response True (Inr ?yes), Response True (Inr example_statistics)])
               (Suc (length (fetches (trace ?s)))))"
    by blast
  then have "statsGrid (updateChart
          (scripted [Response True (Inr ?yes), Response True (Inr example_statistics)]) ?s)
     = [StatCard [StatLabel ''SFund'',
                  StatValue ''stat-value neutral'' ''#f44336'' [Lit ''No Data''],
                  Muted [Val (Num 0), Lit ''% coverage'']]]"
    by (simp only: panel(2))
  ultimately show ?thesis by simp
qed

subsection \<open>What a reset redraws\<close>

text \<open>The two ways of \<open>resetFilters\<close> after its refresh, by the prices flag.\<close>

lemma resetFilters_unloaded:
  fixes h s
  defines "s3 \<equiv> refreshDataInfo h ((setupFundSelection (s\<lparr>selectedFunds := all_funds\<rparr>))
         \<lparr>dataType := ''prices'', chartType := ''line''\<rparr>)"
  assumes "\<not> dataLoaded_prices s"
  shows "resetFilters h s =
           showNotification ''Filters reset successfully!'' NSuccess
             (showNotification ''No prices data loaded. Please upload a CSV file first.'' NWarning s3)"
proof -
  let ?s2 = "(setupFundSelection (s\<lparr>selectedFunds := all_funds\<rparr>))
               \<lparr>dataType := ''prices'', chartType := ''line''\<rparr>"
  have "selection_kept ?s2 s3" unfolding s3_def by (rule refreshDataInfo_kept)
  then have s3: "dataType s3 = ''prices''" "dataLoaded_prices s3 = dataLoaded_prices s"
    by (simp_all add: selection_kept_def setupFundSelection_def)
  with assms(2) have "not_loaded s3" by (simp add: not_loaded_def)
  then show ?thesis
    by (simp add: resetFilters_def Let_def s3_def [symmetric] updateChart_start_def s3)
qed

lemma resetFilters_loaded:
  fixes h s
  defines "s3 \<equiv> refreshDataInfo h ((setupFundSelection (s\<lparr>selectedFunds := all_funds\<rparr>))
         \<lparr>dataType := ''prices'', chartType := ''line''\<rparr>)"
  assumes "dataLoaded_prices s"
  shows "resetFilters h s =
           updateChart_finish h (''prices'', ''line'', fetchOutcome h (Suc (length (fetches (trace s)))))
             (showNotification ''Filters reset successfully!'' NSuccess
                (s3\<lparr>loadingVisible := True,
                    trace := trace s3 @ [ShowLoading True,
                      Fetch (Request ''/chart-data'' ''POST'' (JsonPayload (current_filter s3)))]\<rparr>))"
proof -
  let ?s2 = "(setupFundSelection (s\<lparr>selectedFunds := all_funds\<rparr>))
               \<lparr>dataType := ''prices'', chartType := ''line''\<rparr>"
  have "selection_kept ?s2 s3" unfolding s3_def by (rule refreshDataInfo_kept)
  then have s3: "dataType s3 = ''prices''" "chartType s3 = ''line''"
    "dataLoaded_prices s3 = dataLoaded_prices s"
    by (simp_all add: selection_kept_def setupFundSelection_def)
  have n: "fetches (trace s3) = fetches (trace s) @ [Request ''/data-info'' ''GET'' NoPayload]"
    unfolding s3_def using refreshDataInfo_kept(4) [where s = ?s2 and h = h]
    by (simp add: setupFundSelection_def)
  from assms(2) have "\<not> not_loaded s3" by (simp add: not_loaded_def s3)
  then show ?thesis
    by (simp add: resetFilters_def Let_def s3_def [symmetric] updateChart_start_Inr s3 n)
qed

text \<open>The chart and the panel that a reset finds are those of the state before it.\<close>

lemma reset_refresh_kept:
  "chart_kept s (refreshDataInfo h ((setupFundSelection (s\<lparr>selectedFunds := all_funds\<rparr>))
         \<lparr>dataType := ''prices'', chartType := ''line''\<rparr>))"
  "statsGrid (refreshDataInfo h ((setupFundSelection (s\<lparr>selectedFunds := all_funds\<rparr>))
         \<lparr>dataType := ''prices'', chartType := ''line''\<rparr>)) = statsGrid s"
  "selectedFunds (refreshDataInfo h ((setupFundSelection (s\<lparr>selectedFunds := all_funds\<rparr>))
         \<lparr>dataType := ''prices'', chartType := ''line''\<rparr>)) = all_funds"
  "dataType (refreshDataInfo h ((setupFundSelection (s\<lparr>selectedFunds := all_funds\<rparr>))
         \<lparr>dataType := ''prices'', chartType := ''line''\<rparr>)) = ''prices''"
  "fetches (trace (refreshDataInfo h ((setupFundSelection (s\<lparr>selectedFunds := all_funds\<rparr>))
         \<lparr>dataType := ''prices'', chartType := ''line''\<rparr>)))
     = fetches (trace s) @ [Request ''/data-info'' ''GET'' NoPayload]"
proof -
  let ?s2 = "(setupFundSelection (s\<lparr>selectedFunds := all_funds\<rparr>))
               \<lparr>dataType := ''prices'', chartType := ''line''\<rparr>"
  note kept = refreshDataInfo_kept [where s = ?s2 and h = h]
  show "chart_kept s (refreshDataInfo h ?s2)" "statsGrid (refreshDataInfo h ?s2) = statsGrid s"
    "selectedFunds (refreshDataInfo h ?s2) = all_funds" "dataType (refreshDataInfo h ?s2) = ''prices''"
    "fetches (trace (refreshDataInfo h ?s2)) = fetches (trace s) @ [Request ''/data-info'' ''GET'' NoPayload]"
    using kept
    by (simp_all add: chart_kept_def selection_kept_def setupFundSelection_def)
qed

text \<open>
  C6 as stated fails for a state without prices loaded. On a page with only returns
  loaded that shows the returns of 2021, a reset restores the selection and the controls,
  but the refreshed data info has no prices range, so the bounds of the date controls stay,
  and the guard of \<open>updateChart\<close> stops the redraw: the only request is the data info
  request, and the chart and the panel still show the returns.
\<close>

theorem resetFilters_returns_page_counterexample:
  "dataType (resetFilters (scripted [Response True (Inr returns_only_info)]) returns_page) = ''prices''
   \<and> fetches (trace (resetFilters (scripted [Response True (Inr returns_only_info)]) returns_page))
       = [Request ''/data-info'' ''GET'' NoPayload]
   \<and> chartTitle (resetFilters (scripted [Response True (Inr returns_only_info)]) returns_page)
       = ''Return Rate Analysis''
   \<and> chart_labels (resetFilters (scripted [Response True (Inr returns_only_info)]) returns_page)
       = [JStr ''2021-01-31'']
   \<and> chart_datasets (resetFilters (scripted [Response True (Inr returns_only_info)]) returns_page)
       = [[(''label'', JStr ''CFund''), (''data'', JArr [JNum 2])]]
   \<and> yAxisTitle (resetFilters (scripted [Response True (Inr returns_only_info)]) returns_page)
       = ''Return Rate (%)''
   \<and> statsGrid (resetFilters (scripted [Response True (Inr returns_only_info)]) returns_page)
       = [NoDataPlaceholder]
   \<and> startDate_min (resetFilters (scripted [Response True (Inr returns_only_info)]) returns_page)
       = ''2019-01-01''"
proof -
  let ?h = "scripted [Response True (Inr returns_only_info)]"
  let ?s2 = "(setupFundSelection (returns_page\<lparr>selectedFunds := all_funds\<rparr>))
               \<lparr>dataType := ''prices'', chartType := ''line''\<rparr>"
  let ?s3 = "refreshDataInfo ?h ?s2"
  have page: "\<not> dataLoaded_prices returns_page" "trace returns_page = []"
    "chartTitle returns_page = ''Return Rate Analysis''"
    "chart_labels returns_page = [JStr ''2021-01-31'']"
    "chart_datasets returns_page = [[(''label'', JStr ''CFund''), (''data'', JArr [JNum 2])]]"
    "yAxisTitle returns_page = ''Return Rate (%)''" "statsGrid returns_page = [NoDataPlaceholder]"
    "startDate_min returns_page = ''2019-01-01''"
    by (simp_all add: returns_page_def fresh_page_def)
  have run: "resetFilters ?h returns_page =
           showNotification ''Filters reset successfully!'' NSuccess
             (showNotification ''No prices data loaded. Please upload a CSV file first.'' NWarning ?s3)"
    by (rule resetFilters_unloaded [OF page(1)])
  have "\<forall>info pinfo. fetchOutcome ?h (length (fetches (trace ?s2))) = Response True (Inr info)
          \<and> prices_info info = Some pinfo \<longrightarrow> \<not> prices_loaded info"
    by (simp add: scripted_def setupFundSelection_def page(2) returns_only_info_def)
  then have "dates_kept ?s2 ?s3" by (rule refreshDataInfo_no_prices)
  then have bounds: "startDate_min ?s3 = ''2019-01-01''"
    by (simp add: dates_kept_def setupFundSelection_def page)
  note kept = reset_refresh_kept [where s = returns_page and h = ?h]
  show ?thesis
    unfolding run using kept bounds
    by (simp add: showNotification_def chart_kept_def page)
qed

text \<open>
  C6, amended. From every state, \<open>resetFilters\<close> ends with the five funds selected (and
  their boxes checked), the data type \<open>prices\<close> and the chart type \<open>line\<close>. Its first
  request is a fresh data info request; when the answer reports a loaded prices dataset
  with valid dates, the bounds of the date controls in the final state are that dataset's
  range. Then it runs the chart update. With prices loaded, the next request is the chart
  request for \<open>prices\<close>, the five funds and the dates of the controls; when it succeeds,
  the chart has the labels of the response and its datasets styled as lines, the titles
  for prices, the statistics are requested for the same filter and the panel is the one
  for the outcome of that request; when it fails, labels, datasets and panel stay and an
  error is notified. Without prices loaded there is no further request: the guard's
  warning is notified, and the chart and the panel stay as they were.
\<close>

theorem resetFilters_restores:
  "selectedFunds (resetFilters h s) = [''GFund'', ''FFund'', ''CFund'', ''SFund'', ''IFund'']
   \<and> fundBoxes (resetFilters h s) =
       [(''GFund'', True), (''FFund'', True), (''CFund'', True), (''SFund'', True), (''IFund'', True)]
   \<and> dataType (resetFilters h s) = ''prices''
   \<and> chartType (resetFilters h s) = ''line''
   \<and> (\<exists>rest. fetches (trace (resetFilters h s)) =
                fetches (trace s) @ Request ''/data-info'' ''GET'' NoPayload # rest)
   \<and> (\<forall>info pinfo a b.
         fetchOutcome h (length (fetches (trace s))) = Response True (Inr info)
         \<and> prices_loaded info \<and> prices_info info = Some pinfo
         \<and> isoDay h (date_range_start pinfo) = Some a \<and> isoDay h (date_range_end pinfo) = Some b \<longrightarrow>
         startDate_min (resetFilters h s) = a \<and> startDate_max (resetFilters h s) = b
         \<and> endDate_min (resetFilters h s) = a \<and> endDate_max (resetFilters h s) = b)
   \<and> (\<forall>d. dataLoaded_prices s
         \<and> chart_payload (fetchOutcome h (Suc (length (fetches (trace s))))) = Some d \<longrightarrow>
         chart_labels (resetFilters h s) = cd_labels d
         \<and> chart_datasets (resetFilters h s) = map (styleDataset ''line'') (cd_datasets d)
         \<and> chartTitle (resetFilters h s) = ''Share Price Analysis''
         \<and> yAxisTitle (resetFilters h s) = ''Price ($)''
         \<and> statsGrid (resetFilters h s) =
             statistics_panel ''prices'' [''GFund'', ''FFund'', ''CFund'', ''SFund'', ''IFund'']
               (fetchOutcome h (Suc (Suc (length (fetches (trace s))))))
         \<and> fetches (trace (resetFilters h s)) =
             fetches (trace s) @
               [Request ''/data-info'' ''GET'' NoPayload,
                Request ''/chart-data'' ''POST'' (JsonPayload (current_filter (resetFilters h s))),
                Request ''/statistics'' ''POST'' (JsonPayload (current_filter (resetFilters h s)))])
   \<and> (dataLoaded_prices s
         \<and> chart_payload (fetchOutcome h (Suc (length (fetches (trace s))))) = None \<longrightarrow>
         chart_labels (resetFilters h s) = chart_labels s
         \<and> chart_datasets (resetFilters h s) = chart_datasets s
         \<and> yAxisTitle (resetFilters h s) = yAxisTitle s
         \<and> statsGrid (resetFilters h s) = statsGrid s
         \<and> (\<exists>markup. banner (resetFilters h s) = Some (markup, NError))
         \<and> fetches (trace (resetFilters h s)) =
             fetches (trace s) @
               [Request ''/data-info'' ''GET'' NoPayload,
                Request ''/chart-data'' ''POST'' (JsonPayload (current_filter (resetFilters h s)))])
   \<and> (\<not> dataLoaded_prices s \<longrightarrow>
         fetches (trace (resetFilters h s)) =
           fetches (trace s) @ [Request ''/data-info'' ''GET'' NoPayload]
         \<and> Notify ''No prices data loaded. Please upload a CSV file first.'' NWarning
             \<in> set (trace (resetFilters h s))
         \<and> banner (resetFilters h s) = Some (''Filters reset successfully!'', NSuccess)
         \<and> chartTitle (resetFilters h s) = chartTitle s
         \<and> chart_labels (resetFilters h s) = chart_labels s
         \<and> chart_datasets (resetFilters h s) = chart_datasets s
         \<and> yAxisTitle (resetFilters h s) = yAxisTitle s
         \<and> statsGrid (resetFilters h s) = statsGrid s)"
proof -
  let ?s2 = "(setupFundSelection (s\<lparr>selectedFunds := all_funds\<rparr>))
               \<lparr>dataType := ''prices'', chartType := ''line''\<rparr>"
  let ?s3 = "refreshDataInfo h ?s2"
  let ?r = "resetFilters h s"
  let ?t = "showNotification ''Filters reset successfully!'' NSuccess
                (?s3\<lparr>loadingVisible := True,
                    trace := trace ?s3 @ [ShowLoading True,
                      Fetch (Request ''/chart-data'' ''POST'' (JsonPayload (current_filter ?s3)))]\<rparr>)"
  let ?chart = "fetchOutcome h (Suc (length (fetches (trace s))))"
  have s2: "trace ?s2 = trace s" "dataLoaded_prices ?s2 = dataLoaded_prices s"
    "selectedFunds ?s2 = all_funds" "dataType ?s2 = ''prices''" "chartType ?s2 = ''line''"
    "fundBoxes ?s2 = map (\<lambda>fund. (fund, True)) all_funds"
    by (simp_all add: setupFundSelection_def)
  have kept23: "selection_kept ?s2 ?s3" by (rule refreshDataInfo_kept)
  have kept3r: "selection_kept ?s3 ?r" "dates_kept ?s3 ?r" by (rule resetFilters_refreshed)+
  from kept23 kept3r(1) have kept2r: "selection_kept ?s2 ?r" by (rule selection_kept_trans)
  have sel: "selectedFunds ?r = [''GFund'', ''FFund'', ''CFund'', ''SFund'', ''IFund'']"
    "fundBoxes ?r =
       [(''GFund'', True), (''FFund'', True), (''CFund'', True), (''SFund'', True), (''IFund'', True)]"
    "dataType ?r = ''prices''" "chartType ?r = ''line''"
    using kept2r s2 by (simp_all add: selection_kept_def all_funds_def)
  note s3 = reset_refresh_kept [where s = s and h = h]
  have filter: "current_filter ?r = current_filter ?s3"
    using kept3r by (rule current_filter_kept)
  have t: "dataType ?t = ''prices''" "selectedFunds ?t = [''GFund'', ''FFund'', ''CFund'', ''SFund'', ''IFund'']"
    "current_filter ?t = current_filter ?s3"
    "fetches (trace ?t) = fetches (trace s) @
       [Request ''/data-info'' ''GET'' NoPayload,
        Request ''/chart-data'' ''POST'' (JsonPayload (current_filter ?s3))]"
    "chart_labels ?t = chart_labels s" "chart_datasets ?t = chart_datasets s"
    "yAxisTitle ?t = yAxisTitle s" "statsGrid ?t = statsGrid s"
    using s3 by (simp_all add: showNotification_def current_filter_def chart_kept_def all_funds_def)
  have bounds: "startDate_min ?r = a \<and> startDate_max ?r = b \<and> endDate_min ?r = a \<and> endDate_max ?r = b"
    if "fetchOutcome h (length (fetches (trace s))) = Response True (Inr info)"
      and "prices_loaded info" and "prices_info info = Some pinfo"
      and "isoDay h (date_range_start pinfo) = Some a" and "isoDay h (date_range_end pinfo) = Some b"
    for info pinfo a b
  proof -
    from that(1) have "fetchOutcome h (length (fetches (trace ?s2))) = Response True (Inr info)"
      by (simp add: s2)
    from refreshDataInfo_bounds(1-4) [OF this that(2-5)] kept3r(2) show ?thesis
      by (simp add: dates_kept_def)
  qed
  have redrawn: "chart_labels ?r = cd_labels d
         \<and> chart_datasets ?r = map (styleDataset ''line'') (cd_datasets d)
         \<and> chartTitle ?r = ''Share Price Analysis''
         \<and> yAxisTitle ?r = ''Price ($)''
         \<and> statsGrid ?r =
             statistics_panel ''prices'' [''GFund'', ''FFund'', ''CFund'', ''SFund'', ''IFund'']
               (fetchOutcome h (Suc (Suc (length (fetches (trace s))))))
         \<and> fetches (trace ?r) =
             fetches (trace s) @
               [Request ''/data-info'' ''GET'' NoPayload,
                Request ''/chart-data'' ''POST'' (JsonPayload (current_filter ?r)),
                Request ''/statistics'' ''POST'' (JsonPayload (current_filter ?r))]"
    if loaded: "dataLoaded_prices s" and some: "chart_payload ?chart = Some d" for d
  proof -
    have run: "?r = updateChart_finish h (''prices'', ''line'', ?chart) ?t"
      by (rule resetFilters_loaded [OF loaded])
    note drawn = updateChart_finish_redraws [OF some, where h = h and dt = "''prices''"
        and ct = "''line''" and s = ?t]
    show ?thesis
      unfolding filter unfolding run using drawn by (simp add: t)
  qed
  have failed: "chart_labels ?r = chart_labels s
         \<and> chart_datasets ?r = chart_datasets s
         \<and> yAxisTitle ?r = yAxisTitle s
         \<and> statsGrid ?r = statsGrid s
         \<and> (\<exists>markup. banner ?r = Some (markup, NError))
         \<and> fetches (trace ?r) =
             fetches (trace s) @
               [Request ''/data-info'' ''GET'' NoPayload,
                Request ''/chart-data'' ''POST'' (JsonPayload (current_filter ?r))]"
    if loaded: "dataLoaded_prices s" and none: "chart_payload ?chart = None"
  proof -
    have run: "?r = updateChart_finish h (''prices'', ''line'', ?chart) ?t"
      by (rule resetFilters_loaded [OF loaded])
    note kept = updateChart_finish_None [OF none, where h = h and dt = "''prices''"
        and ct = "''line''" and s = ?t, folded run]
    show ?thesis
      by (simp only: kept(1-5) t filter simp_thms kept(6))
  qed
  have unloaded: "fetches (trace ?r) = fetches (trace s) @ [Request ''/data-info'' ''GET'' NoPayload]
         \<and> Notify ''No prices data loaded. Please upload a CSV file first.'' NWarning \<in> set (trace ?r)
         \<and> banner ?r = Some (''Filters reset successfully!'', NSuccess)
         \<and> chartTitle ?r = chartTitle s
         \<and> chart_labels ?r = chart_labels s
         \<and> chart_datasets ?r = chart_datasets s
         \<and> yAxisTitle ?r = yAxisTitle s
         \<and> statsGrid ?r = statsGrid s"
    if "\<not> dataLoaded_prices s"
    unfolding resetFilters_unloaded [OF that] using s3
    by (simp add: showNotification_def chart_kept_def)
  have first: "\<exists>rest. fetches (trace ?r) =
                fetches (trace s) @ Request ''/data-info'' ''GET'' NoPayload # rest"
  proof (cases "dataLoaded_prices s")
    case False
    with unloaded show ?thesis by simp
  next
    case True
    show ?thesis
    proof (cases "chart_payload ?chart")
      case None
      with failed True show ?thesis by simp
    next
      case (Some d)
      with redrawn True show ?thesis by simp
    qed
  qed
  from sel first bounds redrawn failed unloaded show ?thesis by blast
qed

theorem resetFilters_restores_witness:
  "dataLoaded_prices (fresh_page\<lparr>dataLoaded_prices := True, selectedFunds := [''CFund''],
        dataType := ''returns'', chartType := ''area''\<rparr>)
   \<and> selectedFunds (resetFilters
        (scripted [Response True (Inr example_info),
                   Response True (Inr (empty_body\<lparr>success := True, data := Some example_chart\<rparr>)),
                   Response True (Inr example_statistics)])
        (fresh_page\<lparr>dataLoaded_prices := True, selectedFunds := [''CFund''],
           dataType := ''returns'', chartType := ''area''\<rparr>))
       = [''GFund'', ''FFund'', ''CFund'', ''SFund'', ''IFund'']
   \<and> dataType (resetFilters
        (scripted [Response True (Inr example_info),
                   Response True (Inr (empty_body\<lparr>success := True, data := Some example_chart\<rparr>)),
                   Response True (Inr example_statistics)])
        (fresh_page\<lparr>dataLoaded_prices := True, selectedFunds := [''CFund''],
           dataType := ''returns'', chartType := ''area''\<rparr>)) = ''prices''
   \<and> startDate_min (resetFilters
        (scripted [Response True (Inr example_info),
                   Response True (Inr (empty_body\<lparr>success := True, data := Some example_chart\<rparr>)),
                   Response True (Inr example_statistics)])
        (fresh_page\<lparr>dataLoaded_prices := True, selectedFunds := [''CFund''],
           dataType := ''returns'', chartType := ''area''\<rparr>)) = ''2020-01-02''
   \<and> endDate_max (resetFilters
        (scripted [Response True (Inr example_info),
                   Response True (Inr (empty_body\<lparr>success := True, data := Some example_chart\<rparr>)),
                   Response True (Inr example_statistics)])
        (fresh_page\<lparr>dataLoaded_prices := True, selectedFunds := [''CFund''],
           dataType := ''returns'', chartType := ''area''\<rparr>)) = ''2020-12-31''
   \<and> chart_labels (resetFilters
        (scripted [Response True (Inr example_info),
                   Response True (Inr (empty_body\<lparr>success := True, data := Some example_chart\<rparr>)),
                   Response True (Inr example_statistics)])
        (fresh_page\<lparr>dataLoaded_prices := True, selectedFunds := [''CFund''],
           dataType := ''returns'', chartType := ''area''\<rparr>))
       = [JStr ''2024-01-02'', JStr ''2024-01-03'', JStr ''2024-01-04'']
   \<and> map (\<lambda>series. js_get series ''fill'') (chart_datasets (resetFilters
        (scripted [Response True (Inr example_info),
                   Response True (Inr (empty_body\<lparr>success := True, data := Some example_chart\<rparr>)),
                   Response True (Inr example_statistics)])
        (fresh_page\<lparr>dataLoaded_prices := True, selectedFunds := [''CFund''],
           dataType := ''returns'', chartType := ''area''\<rparr>)))
       = [JBool False, JBool False]
   \<and> chartTitle (resetFilters
        (scripted [Response True (Inr example_info),
                   Response True (Inr (empty_body\<lparr>success := True, data := Some example_chart\<rparr>)),
                   Response True (Inr example_statistics)])
        (fresh_page\<lparr>dataLoaded_prices := True, selectedFunds := [''CFund''],
           dataType := ''returns'', chartType := ''area''\<rparr>)) = ''Share Price Analysis''
   \<and> statsGrid (resetFilters
        (scripted [Response True (Inr example_info),
                   Response True (Inr (empty_body\<lparr>success := True, data := Some example_chart\<rparr>)),
                   Response True (Inr example_statistics)])
        (fresh_page\<lparr>dataLoaded_prices := True, selectedFunds := [''CFund''],
           dataType := ''returns'', chartType := ''area''\<rparr>))
       = [StatCard [StatLabel ''SFund'',
                    StatValue ''stat-value neutral'' ''#f44336'' [Lit ''No Data''],
                    Muted [Val (Num 0), Lit ''% coverage'']]]
   \<and> map (\<lambda>r. case r of Request endpoint meth payl \<Rightarrow> endpoint) (fetches (trace (resetFilters
        (scripted [Response True (Inr example_info),
                   Response True (Inr (empty_body\<lparr>success := True, data := Some example_chart\<rparr>)),
                   Response True (Inr example_statistics)])
        (fresh_page\<lparr>dataLoaded_prices := True, selectedFunds := [''CFund''],
           dataType := ''returns'', chartType := ''area''\<rparr>))))
       = [''/data-info'', ''/chart-data'', ''/statistics'']
   \<and> chart_labels (resetFilters (scripted [Response True (Inr example_info)])
        (fresh_page\<lparr>dataLoaded_prices := True, chart_labels := [JStr ''2023-12-29'']\<rparr>))
       = [JStr ''2023-12-29'']
   \<and> chart_labels (resetFilters (scripted [Response True (Inr returns_only_info)]) returns_page)
       = [JStr ''2021-01-31'']"
proof -
  let ?yes = "empty_body\<lparr>success := True, data := Some example_chart\<rparr>"
  let ?h = "scripted [Response True (Inr example_info), Response True (Inr ?yes),
                      Response True (Inr example_statistics)]"
  let ?s = "fresh_page\<lparr>dataLoaded_prices := True, selectedFunds := [''CFund''],
        dataType := ''returns'', chartType := ''area''\<rparr>"
  let ?p = "\<lparr>record_count = 253, date_range_start = ''2020-01-02'',
             date_range_end = ''2020-12-31'', fund_availability = None\<rparr>"
  let ?g = "scripted [Response True (Inr example_info)]"
  let ?u = "fresh_page\<lparr>dataLoaded_prices := True, chart_labels := [JStr ''2023-12-29'']\<rparr>"
  let ?k = "scripted [Response True (Inr returns_only_info)]"
  note all = resetFilters_restores [of ?h ?s]
  have page: "dataLoaded_prices ?s" "trace fresh_page = []"
    by (simp_all add: fresh_page_def)
  have reported: "fetchOutcome ?h (length (fetches (trace ?s))) = Response True (Inr example_info)
      \<and> prices_loaded example_info
      \<and> prices_info example_info = Some ?p
      \<and> isoDay ?h (date_range_start ?p) = Some ''2020-01-02''
      \<and> isoDay ?h (date_range_end ?p) = Some ''2020-12-31''"
    by (simp add: scripted_def fresh_page_def example_info_def empty_body_def)
  have drawn: "dataLoaded_prices ?s
      \<and> chart_payload (fetchOutcome ?h (Suc (length (fetches (trace ?s))))) = Some example_chart"
    by (simp add: scripted_def fresh_page_def chart_payload_def api_result_def empty_body_def)
  have panel: "statistics_panel ''prices'' [''GFund'', ''FFund'', ''CFund'', ''SFund'', ''IFund'']
       (fetchOutcome ?h (Suc (Suc (length (fetches (trace ?s))))))
     = [StatCard [StatLabel ''SFund'',
                  StatValue ''stat-value neutral'' ''#f44336'' [Lit ''No Data''],
                  Muted [Val (Num 0), Lit ''% coverage'']]]"
    by (simp add: scripted_def fresh_page_def statistics_panel_def api_result_def
        example_statistics_def empty_body_def statCard_def fundColor_def fundColors_def)
  have styled: "map (\<lambda>series. js_get series ''fill'') (map (styleDataset ''line'') (cd_datasets example_chart))
      = [JBool False, JBool False]"
    "cd_labels example_chart = [JStr ''2024-01-02'', JStr ''2024-01-03'', JStr ''2024-01-04'']"
    by (simp_all add: example_chart_def styleDataset_get)
  note bounds = all [THEN conjunct2, THEN conjunct2, THEN conjunct2, THEN conjunct2, THEN conjunct2,
      THEN conjunct1, THEN spec, THEN spec, THEN spec, THEN spec, THEN mp, OF reported]
  note redraw = all [THEN conjunct2, THEN conjunct2, THEN conjunct2, THEN conjunct2,
      THEN conjunct2, THEN conjunct2, THEN conjunct1, THEN spec, THEN mp, OF drawn]
  from all have restored: "selectedFunds (resetFilters ?h ?s) = [''GFund'', ''FFund'', ''CFund'', ''SFund'', ''IFund'']"
    "dataType (resetFilters ?h ?s) = ''prices''"
    by blast+
  from bounds have range: "startDate_min (resetFilters ?h ?s) = ''2020-01-02''"
    "endDate_max (resetFilters ?h ?s) = ''2020-12-31''"
    by blast+
  from redraw have chart: "chart_labels (resetFilters ?h ?s) = cd_labels example_chart"
    "chart_datasets (resetFilters ?h ?s) = map (styleDataset ''line'') (cd_datasets example_chart)"
    "chartTitle (resetFilters ?h ?s) = ''Share Price Analysis''"
    "statsGrid (resetFilters ?h ?s) =
       statistics_panel ''prices'' [''GFund'', ''FFund'', ''CFund'', ''SFund'', ''IFund'']
         (fetchOutcome ?h (Suc (Suc (length (fetches (trace ?s))))))"
    "fetches (trace (resetFilters ?h ?s)) =
       fetches (trace ?s) @
         [Request ''/data-info'' ''GET'' NoPayload,
          Request ''/chart-data'' ''POST'' (JsonPayload (current_filter (resetFilters ?h ?s))),
          Request ''/statistics'' ''POST'' (JsonPayload (current_filter (resetFilters ?h ?s)))]"
    by blast+
  have requests: "map (\<lambda>r. case r of Request endpoint meth payl \<Rightarrow> endpoint)
        (fetches (trace (resetFilters ?h ?s))) = [''/data-info'', ''/chart-data'', ''/statistics'']"
    unfolding chart(5) by (simp add: page(2))
  have failing: "dataLoaded_prices ?u
      \<and> chart_payload (fetchOutcome ?g (Suc (length (fetches (trace ?u))))) = None"
    by (simp add: scripted_def fresh_page_def chart_payload_def api_result_def)
  from resetFilters_restores [of ?g ?u, THEN conjunct2, THEN conjunct2, THEN conjunct2,
      THEN conjunct2, THEN conjunct2, THEN conjunct2, THEN conjunct2, THEN conjunct1, THEN mp,
      OF failing]
  have stays: "chart_labels (resetFilters ?g ?u) = [JStr ''2023-12-29'']"
    by (simp add: fresh_page_def)
  have unloaded: "\<not> dataLoaded_prices returns_page"
    by (simp add: returns_page_def fresh_page_def)
  from resetFilters_restores [of ?k returns_page, THEN conjunct2, THEN conjunct2, THEN conjunct2,
      THEN conjunct2, THEN conjunct2, THEN conjunct2, THEN conjunct2, THEN conjunct2, THEN mp,
      OF unloaded]
  have guarded: "chart_labels (resetFilters ?k returns_page) = [JStr ''2021-01-31'']"
    by (simp add: returns_page_def fresh_page_def)
  show ?thesis
    using page(1) restored range chart(3) requests stays guarded
    by (simp only: chart(1,2,4) styled panel simp_thms)
qed

end
